theory Spec2Isabelle
  imports Complex_Main "HOL-Library.Word"
begin

section \<open>The VR runtime's render-model interface\<close>

text \<open>
  Modelled from the spec: the result codes of the runtime's asynchronous loaders (a success
  result, a "still loading" result, one benign error code, other errors). The enumeration
  \<open>vr::EVRRenderModelError\<close> is declared in the runtime's header, which is not part of
  the source file; \<open>enum_value\<close> gives the integer the header assigns to each
  enumerator, which is what the comparison \<open>result > VRRenderModelError_Loading\<close> of
  the source reads.
\<close>

datatype EVRRenderModelError =
    VRRenderModelError_None
  | VRRenderModelError_Loading
  | VRRenderModelError_NotSupported
  | VRRenderModelError_InvalidArg
  | VRRenderModelError_InvalidModel
  | VRRenderModelError_NoShapes
  | VRRenderModelError_MultipleShapes
  | VRRenderModelError_TooManyVertices
  | VRRenderModelError_MultipleTextures
  | VRRenderModelError_BufferTooSmall
  | VRRenderModelError_NotEnoughNormals
  | VRRenderModelError_NotEnoughTexCoords
  | VRRenderModelError_InvalidTexture

fun enum_value :: "EVRRenderModelError \<Rightarrow> int" where
  "enum_value VRRenderModelError_None = 0"
| "enum_value VRRenderModelError_Loading = 100"
| "enum_value VRRenderModelError_NotSupported = 200"
| "enum_value VRRenderModelError_InvalidArg = 300"
| "enum_value VRRenderModelError_InvalidModel = 301"
| "enum_value VRRenderModelError_NoShapes = 302"
| "enum_value VRRenderModelError_MultipleShapes = 303"
| "enum_value VRRenderModelError_TooManyVertices = 304"
| "enum_value VRRenderModelError_MultipleTextures = 305"
| "enum_value VRRenderModelError_BufferTooSmall = 306"
| "enum_value VRRenderModelError_NotEnoughNormals = 307"
| "enum_value VRRenderModelError_NotEnoughTexCoords = 308"
| "enum_value VRRenderModelError_InvalidTexture = 400"

text \<open>
  The raw assets the runtime hands out. Only the fields that \<open>Build\<close> and
  \<open>Render\<close> read are kept; the vertex, index and texel buffers themselves go to the
  GPU layer unchanged.
\<close>

record RenderModel_t =
  unVertexCount :: nat
  unTriangleCount :: nat
  diffuseTextureId :: int

record RenderModel_TextureMap_t =
  unWidth :: nat
  unHeight :: nat

text \<open>
  A device pose: the 3x4 matrix \<open>mDeviceToAbsoluteTracking.m[j][i]\<close> (row \<open>j < 3\<close>,
  column \<open>i < 4\<close>) and the validity flag. The floats of the source are read as reals.
\<close>

type_synonym HmdMatrix34_t = "nat \<Rightarrow> nat \<Rightarrow> real"

record TrackedDevicePose_t =
  mDeviceToAbsoluteTracking :: HmdMatrix34_t
  bPoseIsValid :: bool

section \<open>What a call does besides changing the object\<close>

datatype message =
    Unable_to_load_render_model string "EVRRenderModelError option"
  | Unable_to_load_render_texture string
  | Unable_to_create_GL_model string
  | Error_setting_position_in_shader_VAO
  | Error_setting_tcoords_in_shader_VAO
  | SDL_could_not_initialize
  | Window_could_not_be_created
  | OpenGL_context_could_not_be_created
  | Unable_to_set_VSync
  | Compositor_initialization_failed

text \<open>
  The calls a function makes on its collaborators (runtime, GPU layer, logging), in the
  order the source makes them. A \<open>double[16]\<close> is a list of 16 reals in row-major order
  (\<open>Element[r][c]\<close> at position \<open>4 * r + c\<close>).
\<close>

datatype event =
    LoadRenderModel_Async_call string
  | LoadTexture_Async_call int
  | FreeRenderModel_call
  | FreeTexture_call
  | vtkErrorMacro message
  | ModelDelete string
  | Upload_ArrayBuffer nat
  | Upload_ElementArrayBuffer nat
  | ReadyShaderProgram
  | VAO_Bind
  | IBO_Bind
  | Create2DFromRaw nat nat
  | Texture_Activate
  | SetUniformi_diffuse
  | SetUniformMatrix "real list"
  | glDrawElements nat
  | Texture_Deactivate
  | Model_Render_call nat nat
  | WaitGetPoses_call
  | UpdateLightsGeometryToFollowCamera_call nat
  | SDL_Init_call
  | VR_Init_call
  | VR_GetGenericInterface_call
  | VR_Shutdown_call
  | SDL_ShowSimpleMessageBox string
  | SDL_CreateWindow_call int int int int
  | SDL_GL_CreateContext_call
  | OpenGLInit_call
  | glDepthRange_call
  | SDL_GL_SetSwapInterval_call
  | SDL_SetWindowTitle string
  | glGenFramebuffers nat
  | glBindFramebuffer nat
  | glGenRenderbuffers nat
  | glBindRenderbuffer nat
  | glRenderbufferStorageMultisample nat int int
  | glRenderbufferStorage int int
  | glFramebufferRenderbuffer nat
  | glGenTextures nat
  | glBindTexture_2D_MULTISAMPLE nat
  | glBindTexture_2D nat
  | glTexImage2DMultisample nat int int
  | glTexImage2D int int
  | glFramebufferTexture2D nat
  | glTexParameteri_MIN_FILTER_LINEAR
  | glTexParameteri_MAX_LEVEL_0
  | glCheckFramebufferStatus_call nat
  | VRCompositor_call
  | DashboardOverlay_Create

section \<open>C strings\<close>

text \<open>
  Modelled from the spec: the "case-insensitive name match". \<open>stricmp\<close> (\<open>strcasecmp\<close>)
  is the C library's: it compares two C strings byte by byte after \<open>tolower\<close>, stops at
  the first difference or at the terminating NUL, and returns the difference. The end of
  the list stands for the terminator, and so does a NUL inside it.
\<close>

definition tolower :: "char \<Rightarrow> char" where
  "tolower c =
     (if 65 \<le> (of_char c :: nat) \<and> (of_char c :: nat) \<le> 90
      then char_of (of_char c + 32 :: nat) else c)"

fun stricmp :: "string \<Rightarrow> string \<Rightarrow> int" where
  "stricmp [] [] = 0"
| "stricmp [] (b # bs) = - int (of_char (tolower b))"
| "stricmp (a # as) [] = int (of_char (tolower a))"
| "stricmp (a # as) (b # bs) =
     (if tolower a \<noteq> tolower b then int (of_char (tolower a)) - int (of_char (tolower b))
      else if (of_char a :: nat) = 0 then 0
      else stricmp as bs)"

text \<open>The C string that a \<open>const char *\<close> designates: the bytes before the first NUL.
  \<open>std::string\<close>'s constructor from a \<open>const char *\<close> copies exactly these.\<close>

definition c_str :: "string \<Rightarrow> string" where
  "c_str s = takeWhile (\<lambda>c. (of_char c :: nat) \<noteq> 0) s"

section \<open>vtkOpenVRModel\<close>

record vtkOpenVRModel =
  ModelName :: string
  RawModel :: "RenderModel_t option"
  RawTexture :: "RenderModel_TextureMap_t option"
  Show :: bool
  Loaded :: bool
  FailedToLoad :: bool
  IndexCount :: nat
  PoseMatrix :: "real list"

definition Identity4x4 :: "real list" where
  "Identity4x4 = [1, 0, 0, 0,  0, 1, 0, 0,  0, 0, 1, 0,  0, 0, 0, 1]"

text \<open>
  The constructor. It leaves \<open>Show\<close> unset; the only place that creates a model
  (\<open>FindOrLoadRenderModel\<close>) sets it before the model is shared, so the value chosen
  here is never read.
\<close>

definition vtkOpenVRModel_New :: vtkOpenVRModel where
  "vtkOpenVRModel_New =
     \<lparr> ModelName = [], RawModel = None, RawTexture = None, Show = False,
       Loaded = False, FailedToLoad = False, IndexCount = 0, PoseMatrix = Identity4x4 \<rparr>"

text \<open>
  Modelled from the spec: the matrix product \<open>\<times>\<close> of two 4x4 matrices
  (\<open>vtkMatrix4x4::Multiply4x4(a, b, c)\<close> of the host framework, \<open>c = a b\<close> on
  row-major arrays).
\<close>

definition Multiply4x4 :: "real list \<Rightarrow> real list \<Rightarrow> real list" where
  "Multiply4x4 a b =
     map (\<lambda>n. sum_list (map (\<lambda>k. a ! (4 * (n div 4) + k) * b ! (4 * k + n mod 4)) [0, 1, 2, 3]))
       [0, 1, 2, 3, 4, 5, 6, 7, 8, 9, 10, 11, 12, 13, 14, 15]"

text \<open>
  What the GPU layer and the runtime answer during one call of \<open>Render\<close>. A loader's
  answer is its result code and the value of the caller's pointer after the call
  (\<open>None\<close> is the null pointer).
\<close>

record render_env =
  LoadRenderModel_Async :: "EVRRenderModelError \<times> RenderModel_t option"
  LoadTexture_Async :: "EVRRenderModelError \<times> RenderModel_TextureMap_t option"
  AddAttributeArray_position :: bool
  AddAttributeArray_tcoords :: bool

text \<open>
  \<open>Build\<close>: upload the buffers, ready the shader, create the texture. It always returns
  true. \<open>Render\<close> calls it only with both raw pointers set; the last case is the null
  dereference otherwise. \<open>unTriangleCount * 3\<close> is an \<open>uint32_t\<close> product.
\<close>

definition Build :: "render_env \<Rightarrow> vtkOpenVRModel \<Rightarrow> bool \<times> vtkOpenVRModel \<times> event list" where
  "Build env m =
     (case (RawModel m, RawTexture m) of
        (Some raw, Some tex) \<Rightarrow>
          (True,
           m\<lparr>IndexCount := (unTriangleCount raw * 3) mod 2 ^ 32\<rparr>,
           [Upload_ArrayBuffer (unVertexCount raw),
            Upload_ElementArrayBuffer ((unTriangleCount raw * 3) mod 2 ^ 32),
            ReadyShaderProgram, VAO_Bind]
           @ (if \<not> AddAttributeArray_position env
              then [vtkErrorMacro Error_setting_position_in_shader_VAO] else [])
           @ (if \<not> AddAttributeArray_tcoords env
              then [vtkErrorMacro Error_setting_tcoords_in_shader_VAO] else [])
           @ [Create2DFromRaw (unWidth tex) (unHeight tex)])
      | _ \<Rightarrow> (True, m, []))"

text \<open>
  The local array \<open>elems\<close> of \<open>Render\<close>: the two nested loops
  \<open>elems[j+i*4] = pose.m[j][i]\<close> for \<open>j < 3\<close>, \<open>i < 4\<close>, then the four assignments
  to positions 3, 7, 11 and 15. \<open>e0\<close> is the array's content before the loops.
\<close>

definition pose_elems :: "real list \<Rightarrow> HmdMatrix34_t \<Rightarrow> real list" where
  "pose_elems e0 m =
     (let e = fold (\<lambda>j e. fold (\<lambda>i e. e[j + i * 4 := m j i]) [0, 1, 2, 3] e) [0, 1, 2] e0
      in e[3 := 0, 7 := 0, 11 := 0, 15 := 1])"

text \<open>The block "do we not have the model loaded? Keep trying it is async".
  The third component says that the source returned from \<open>Render\<close> there.\<close>

definition Render_geometry :: "render_env \<Rightarrow> vtkOpenVRModel \<Rightarrow> vtkOpenVRModel \<times> event list \<times> bool" where
  "Render_geometry env m =
     (if RawModel m = None then
        (let (result, out) = LoadRenderModel_Async env;
             m1 = m\<lparr>RawModel := out\<rparr>;
             called = [LoadRenderModel_Async_call (c_str (ModelName m))]
         in if enum_value result > enum_value VRRenderModelError_Loading then
              (m1\<lparr>FailedToLoad := True\<rparr>,
               called @ (if result \<noteq> VRRenderModelError_NotEnoughTexCoords
                         then [vtkErrorMacro (Unable_to_load_render_model (ModelName m) (Some result))]
                         else []),
               True)
            else (m1, called, False))
      else (m, [], False))"

text \<open>The block "if we have the model try loading the texture".\<close>

definition Render_texture :: "render_env \<Rightarrow> vtkOpenVRModel \<Rightarrow> vtkOpenVRModel \<times> event list" where
  "Render_texture env m =
     (case RawModel m of
        Some raw \<Rightarrow>
          if RawTexture m = None then
            (let (result, out) = LoadTexture_Async env;
                 m1 = m\<lparr>RawTexture := out\<rparr>;
                 ev1 = LoadTexture_Async_call (diffuseTextureId raw)
                       # (if enum_value result > enum_value VRRenderModelError_Loading
                          then [vtkErrorMacro (Unable_to_load_render_texture (ModelName m))]
                          else [])
             in if RawTexture m1 \<noteq> None then
                  (let (ok, m2, ev2) = Build env m1
                   in (m2\<lparr>Loaded := True\<rparr>,
                       ev1 @ ev2
                       @ (if \<not> ok then [vtkErrorMacro (Unable_to_create_GL_model (ModelName m))] else [])
                       @ [FreeRenderModel_call, FreeTexture_call]))
                else (m1, ev1))
          else (m, [])
      | None \<Rightarrow> (m, []))"

text \<open>The block "render the model". \<open>tcdc\<close> is the first renderer's camera's
  tracking-to-device-clip matrix, \<open>None\<close> when the window has no renderer.\<close>

definition Render_draw :: "real list option \<Rightarrow> TrackedDevicePose_t \<Rightarrow> vtkOpenVRModel \<Rightarrow> vtkOpenVRModel \<times> event list" where
  "Render_draw tcdc pose m =
     (if Loaded m then
        (case tcdc of
           Some t \<Rightarrow>
             (let elems = pose_elems (replicate 16 0) (mDeviceToAbsoluteTracking pose);
                  m1 = m\<lparr>PoseMatrix := Multiply4x4 elems t\<rparr>
              in (m1,
                  [ReadyShaderProgram, VAO_Bind, IBO_Bind, Texture_Activate, SetUniformi_diffuse,
                   SetUniformMatrix (PoseMatrix m1),
                   glDrawElements (IndexCount m1), Texture_Deactivate]))
         | None \<Rightarrow>
             (m, [ReadyShaderProgram, VAO_Bind, IBO_Bind, Texture_Activate, SetUniformi_diffuse,
                  glDrawElements (IndexCount m), Texture_Deactivate]))
      else (m, []))"

definition Render :: "render_env \<Rightarrow> real list option \<Rightarrow> TrackedDevicePose_t \<Rightarrow> vtkOpenVRModel \<Rightarrow> vtkOpenVRModel \<times> event list" where
  "Render env tcdc pose m =
     (if FailedToLoad m then (m, [])
      else
        (let (m1, ev1, returned) = Render_geometry env m
         in if returned then (m1, ev1)
            else
              (let (m2, ev2) = Render_texture env m1;
                   (m3, ev3) = Render_draw tcdc pose m2
               in (m3, ev1 @ ev2 @ ev3))))"

section \<open>The host camera and renderer\<close>

type_synonym vec3 = "real \<times> real \<times> real"

text \<open>
  The host camera, as far as this file uses it: what \<open>GetDistance\<close>,
  \<open>GetTranslation\<close> and \<open>GetTrackingToDCMatrix\<close> return, and the last arguments of
  \<open>SetPosition\<close>, \<open>SetFocalPoint\<close> and \<open>SetViewUp\<close>. Each renderer has a camera
  of its own.
\<close>

record vtkOpenVRCamera =
  Position :: vec3
  FocalPoint :: vec3
  ViewUp :: vec3
  Distance :: real
  Translation :: vec3
  TrackingToDCMatrix :: "real list"

record vtkRenderer =
  ActiveCamera :: vtkOpenVRCamera

text \<open>Modelled from the spec: the cross product (\<open>right = direction \<times> up\<close>);
  \<open>vtkMath::Cross(a, b, c)\<close> of the host framework stores \<open>a \<times> b\<close> in \<open>c\<close>.\<close>

fun Cross :: "vec3 \<Rightarrow> vec3 \<Rightarrow> vec3" where
  "Cross (a0, a1, a2) (b0, b1, b2) = (a1 * b2 - a2 * b1, a2 * b0 - a0 * b2, a0 * b1 - a1 * b0)"

section \<open>vtkOpenVRRenderWindow\<close>

text \<open>
  Modelled from the spec: the device slots are an array "bounded by the runtime's maximum
  device count", with the head-mounted display in a fixed slot. Both constants come from
  the runtime's header. No result below depends on the value of the bound.
\<close>

definition k_unTrackedDeviceIndex_Hmd :: nat where
  "k_unTrackedDeviceIndex_Hmd = 0"

definition k_unMaxTrackedDeviceCount :: nat where
  "k_unMaxTrackedDeviceCount = 16"

datatype ETrackedDeviceClass =
    TrackedDeviceClass_Invalid
  | TrackedDeviceClass_HMD
  | TrackedDeviceClass_Controller
  | TrackedDeviceClass_GenericTracker
  | TrackedDeviceClass_TrackingReference
  | TrackedDeviceClass_DisplayRedirect

record FramebufferDesc =
  m_nDepthBufferId :: nat
  m_nRenderTextureId :: nat
  m_nRenderFramebufferId :: nat
  m_nResolveTextureId :: nat
  m_nResolveFramebufferId :: nat

text \<open>
  The window. Pointers that the source only tests against null are booleans or options.
  A \<open>vtkOpenVRModel *\<close> is the position of the model in \<open>VTKRenderModels\<close>: the vector
  owns the models and only grows between \<open>Initialize\<close> and \<open>Finalize\<close>, so the
  position identifies the instance, and two device slots holding the same position share
  one model. The arrays indexed by device slot are functions of the slot; the source
  reads and writes them below \<open>k_unMaxTrackedDeviceCount\<close> only. The window's
  \<open>Position\<close> is called \<open>WindowPosition\<close> here (the camera has a \<open>Position\<close> too).
  \<open>RenderWidth\<close> and \<open>RenderHeight\<close> are the \<open>uint32_t\<close> that the runtime's
  \<open>GetRecommendedRenderTargetSize\<close> writes through its two pointers.
\<close>

record vtkOpenVRRenderWindow =
  HMD :: bool
  OpenVRRenderModels :: bool
  VTKRenderModels :: "vtkOpenVRModel list"
  TrackedDeviceToRenderModel :: "nat \<Rightarrow> nat option"
  TrackedDevicePose :: "nat \<Rightarrow> TrackedDevicePose_t"
  Renderers :: "vtkRenderer list"
  HMDTransform :: "real list"
  InitialViewUp :: vec3
  InitialViewDirection :: vec3
  Size :: "int \<times> int"
  WindowPosition :: "int \<times> int"
  RenderWidth :: "32 word"
  RenderHeight :: "32 word"
  MultiSamples :: int
  LeftEyeDesc :: FramebufferDesc
  RightEyeDesc :: FramebufferDesc
  WindowId :: "nat option"
  ContextId :: "nat option"
  WindowName :: string
  m_strDriver :: string
  m_strDisplay :: string

subsection \<open>The device model cache\<close>

text \<open>The loop over \<open>VTKRenderModels\<close>: the position of the first model whose name
  matches.\<close>

fun find_render_model :: "string \<Rightarrow> vtkOpenVRModel list \<Rightarrow> nat option" where
  "find_render_model n [] = None"
| "find_render_model n (m # ms) =
     (if stricmp (ModelName m) n = 0 then Some 0
      else map_option Suc (find_render_model n ms))"

text \<open>
  \<open>FindOrLoadRenderModel\<close>. \<open>reply\<close> is what the runtime's \<open>LoadRenderModel_Async\<close>
  answers if it is called: the result code and the value it leaves in
  \<open>pRenderModel->RawModel\<close>. The result is the returned pointer (\<open>None\<close> is
  \<open>NULL\<close>), the window afterwards, and the calls made.
\<close>

definition FindOrLoadRenderModel ::
  "EVRRenderModelError \<times> RenderModel_t option \<Rightarrow> string \<Rightarrow> vtkOpenVRRenderWindow
     \<Rightarrow> nat option \<times> vtkOpenVRRenderWindow \<times> event list" where
  "FindOrLoadRenderModel reply pchRenderModelName s =
     (case find_render_model pchRenderModelName (VTKRenderModels s) of
        Some i \<Rightarrow> (Some i, s, [])
      | None \<Rightarrow>
          (let pRenderModel = vtkOpenVRModel_New\<lparr>ModelName := c_str pchRenderModelName\<rparr>;
               (result, out) = reply;
               pRenderModel = pRenderModel\<lparr>RawModel := out\<rparr>;
               called = [LoadRenderModel_Async_call (ModelName pRenderModel)]
           in if enum_value result > enum_value VRRenderModelError_Loading then
                (None, s,
                 called @ [vtkErrorMacro (Unable_to_load_render_model (ModelName pRenderModel) None),
                           ModelDelete (ModelName pRenderModel)])
              else
                (Some (length (VTKRenderModels s)),
                 s\<lparr>VTKRenderModels := VTKRenderModels s @ [pRenderModel\<lparr>Show := True\<rparr>]\<rparr>,
                 called)))"

subsection \<open>Rendering the device models\<close>

text \<open>
  What the runtime answers during one call of \<open>RenderModels\<close>, per device slot. Each
  slot is visited once, and a visit asks each question at most once.
\<close>

record frame_env =
  IsInputFocusCapturedByAnotherProcess :: bool
  IsTrackedDeviceConnected :: "nat \<Rightarrow> bool"
  RenderModelName_String :: "nat \<Rightarrow> string"
  GetTrackedDeviceClass :: "nat \<Rightarrow> ETrackedDeviceClass"
  LoadRenderModel_Async_start :: "nat \<Rightarrow> EVRRenderModelError \<times> RenderModel_t option"
  Render_answers :: "nat \<Rightarrow> render_env"

definition first_renderer_tcdc :: "vtkOpenVRRenderWindow \<Rightarrow> real list option" where
  "first_renderer_tcdc s =
     (case Renderers s of [] \<Rightarrow> None | ren # _ \<Rightarrow> Some (TrackingToDCMatrix (ActiveCamera ren)))"

text \<open>
  The block "do we not have a model loaded yet? try loading one" of the loop of
  \<open>RenderModels\<close>, for one device slot.
\<close>

definition RenderModels_load ::
  "frame_env \<Rightarrow> nat \<Rightarrow> vtkOpenVRRenderWindow \<Rightarrow> vtkOpenVRRenderWindow \<times> event list" where
  "RenderModels_load env unTrackedDevice s =
     (if TrackedDeviceToRenderModel s unTrackedDevice = None then
        (let sRenderModelName = RenderModelName_String env unTrackedDevice;
             (pRenderModel, s', ev) =
                FindOrLoadRenderModel (LoadRenderModel_Async_start env unTrackedDevice)
                  sRenderModelName s
         in if pRenderModel \<noteq> None
            then (s'\<lparr>TrackedDeviceToRenderModel :=
                       (TrackedDeviceToRenderModel s')(unTrackedDevice := pRenderModel)\<rparr>, ev)
            else (s', ev))
      else (s, []))"

text \<open>
  The body of the loop of \<open>RenderModels\<close> for one device slot. \<open>None\<close> stands for
  undefined behaviour: the slot holds a pointer that is not a model of the cache.
  \<open>Model_Render_call d i\<close> marks the call \<open>TrackedDeviceToRenderModel[d]->Render(this, pose)\<close>
  on the model at position \<open>i\<close>; the calls that \<open>Render\<close> makes follow it.
\<close>

definition RenderModels_device ::
  "frame_env \<Rightarrow> bool \<Rightarrow> nat \<Rightarrow> vtkOpenVRRenderWindow \<Rightarrow> (vtkOpenVRRenderWindow \<times> event list) option" where
  "RenderModels_device env bIsInputCapturedByAnotherProcess unTrackedDevice s =
     (if \<not> IsTrackedDeviceConnected env unTrackedDevice then Some (s, [])
      else
        (let (s1, ev1) = RenderModels_load env unTrackedDevice s
         in case TrackedDeviceToRenderModel s1 unTrackedDevice of
              None \<Rightarrow> Some (s1, ev1)
            | Some i \<Rightarrow>
                if \<not> i < length (VTKRenderModels s1) then None
                else if \<not> Show (VTKRenderModels s1 ! i) then Some (s1, ev1)
                else
                  (let pose = TrackedDevicePose s1 unTrackedDevice
                   in if \<not> bPoseIsValid pose then Some (s1, ev1)
                      else if bIsInputCapturedByAnotherProcess \<and>
                              GetTrackedDeviceClass env unTrackedDevice = TrackedDeviceClass_Controller
                      then Some (s1, ev1)
                      else
                        (let (m', ev2) = Render (Render_answers env unTrackedDevice)
                                           (first_renderer_tcdc s1) pose (VTKRenderModels s1 ! i)
                         in Some (s1\<lparr>VTKRenderModels := (VTKRenderModels s1)[i := m']\<rparr>,
                                  ev1 @ Model_Render_call unTrackedDevice i # ev2)))))"

fun RenderModels_loop ::
  "frame_env \<Rightarrow> bool \<Rightarrow> nat list \<Rightarrow> vtkOpenVRRenderWindow \<Rightarrow> (vtkOpenVRRenderWindow \<times> event list) option" where
  "RenderModels_loop env capt [] s = Some (s, [])"
| "RenderModels_loop env capt (d # ds) s =
     (case RenderModels_device env capt d s of
        None \<Rightarrow> None
      | Some (s1, ev1) \<Rightarrow>
          (case RenderModels_loop env capt ds s1 of
             None \<Rightarrow> None
           | Some (s2, ev2) \<Rightarrow> Some (s2, ev1 @ ev2)))"

text \<open>\<open>RenderModels\<close>. It dereferences \<open>HMD\<close> first: with no session the behaviour is
  undefined (\<open>None\<close>).\<close>

definition RenderModels :: "frame_env \<Rightarrow> vtkOpenVRRenderWindow \<Rightarrow> (vtkOpenVRRenderWindow \<times> event list) option" where
  "RenderModels env s =
     (if \<not> HMD s then None
      else RenderModels_loop env (IsInputFocusCapturedByAnotherProcess env)
             [k_unTrackedDeviceIndex_Hmd + 1 ..< k_unMaxTrackedDeviceCount] s)"

subsection \<open>The per-frame pose update\<close>

text \<open>
  The body of the loop over the renderers in \<open>UpdateHMDMatrixPose\<close>: the camera
  placement from the head pose \<open>m\<close>, the window's initial view-up \<open>vup\<close> and initial
  view direction \<open>dop\<close>.
\<close>

definition UpdateHMDMatrixPose_camera :: "vec3 \<Rightarrow> vec3 \<Rightarrow> HmdMatrix34_t \<Rightarrow> vtkOpenVRCamera \<Rightarrow> vtkOpenVRCamera" where
  "UpdateHMDMatrixPose_camera vup dop m cam =
     (let (vup0, vup1, vup2) = vup;
          (dop0, dop1, dop2) = dop;
          (vright0, vright1, vright2) = Cross dop vup;
          (hvright0, hvright1, hvright2) = (m 0 0, m 1 0, m 2 0);
          (hvup0, hvup1, hvup2) = (m 0 1, m 1 1, m 2 1);
          (pos0, pos1, pos2) = (m 0 3, m 1 3, m 2 3);
          distance = Distance cam;
          (trans0, trans1, trans2) = Translation cam;
          npos0 = pos0 * vright0 + pos1 * vup0 - pos2 * dop0;
          npos1 = pos0 * vright1 + pos1 * vup1 - pos2 * dop1;
          npos2 = pos0 * vright2 + pos1 * vup2 - pos2 * dop2;
          (pos0, pos1, pos2) =
             (npos0 * distance - trans0, npos1 * distance - trans1, npos2 * distance - trans2);
          fvright0 = hvright0 * vright0 + hvright1 * vup0 - hvright2 * dop0;
          fvright1 = hvright0 * vright1 + hvright1 * vup1 - hvright2 * dop1;
          fvright2 = hvright0 * vright2 + hvright1 * vup2 - hvright2 * dop2;
          fvup0 = hvup0 * vright0 + hvup1 * vup0 - hvup2 * dop0;
          fvup1 = hvup0 * vright1 + hvup1 * vup1 - hvup2 * dop1;
          fvup2 = hvup0 * vright2 + hvup1 * vup2 - hvup2 * dop2;
          (fdop0, fdop1, fdop2) = Cross (fvup0, fvup1, fvup2) (fvright0, fvright1, fvright2)
      in cam\<lparr>Position := (pos0, pos1, pos2),
              FocalPoint := (pos0 + fdop0 * distance, pos1 + fdop1 * distance, pos2 + fdop2 * distance),
              ViewUp := (fvup0, fvup1, fvup2)\<rparr>)"

text \<open>
  \<open>UpdateHMDMatrixPose\<close>. \<open>poses\<close> is what the compositor's \<open>WaitGetPoses\<close> writes
  into the \<open>k_unMaxTrackedDeviceCount\<close> entries of \<open>TrackedDevicePose\<close> if it is
  called.
\<close>

definition UpdateHMDMatrixPose ::
  "(nat \<Rightarrow> TrackedDevicePose_t) \<Rightarrow> vtkOpenVRRenderWindow \<Rightarrow> vtkOpenVRRenderWindow \<times> event list" where
  "UpdateHMDMatrixPose poses s =
     (if \<not> HMD s then (s, [])
      else
        (let s1 = s\<lparr>TrackedDevicePose :=
                       (\<lambda>i. if i < k_unMaxTrackedDeviceCount then poses i else TrackedDevicePose s i)\<rparr>;
             tdPose = TrackedDevicePose s1 k_unTrackedDeviceIndex_Hmd
         in if bPoseIsValid tdPose then
              (s1\<lparr>Renderers :=
                     map (\<lambda>ren. ren\<lparr>ActiveCamera :=
                                       UpdateHMDMatrixPose_camera (InitialViewUp s1) (InitialViewDirection s1)
                                         (mDeviceToAbsoluteTracking tdPose) (ActiveCamera ren)\<rparr>)
                       (Renderers s1),
                   HMDTransform := (if Renderers s1 = [] then HMDTransform s1 else Identity4x4)\<rparr>,
               WaitGetPoses_call
               # map UpdateLightsGeometryToFollowCamera_call [0 ..< length (Renderers s1)])
            else (s1, [WaitGetPoses_call])))"

subsection \<open>Framebuffers and initialization\<close>

text \<open>
  What the GL driver answers during one call of \<open>CreateFrameBuffer\<close>: the names it
  generates, in the order of the calls, and the status it reports for the framebuffer
  bound to \<open>GL_FRAMEBUFFER\<close>, given that framebuffer's name.
\<close>

record gl_answers =
  GenFramebuffers_render :: nat
  GenRenderbuffers_depth :: nat
  GenTextures_render :: nat
  GenFramebuffers_resolve :: nat
  GenTextures_resolve :: nat
  glCheckFramebufferStatus :: "nat \<Rightarrow> nat"

definition GL_FRAMEBUFFER_COMPLETE :: nat where
  "GL_FRAMEBUFFER_COMPLETE = 36053"

definition CreateFrameBuffer ::
  "gl_answers \<Rightarrow> int \<Rightarrow> int \<Rightarrow> int \<Rightarrow> FramebufferDesc \<Rightarrow> bool \<times> FramebufferDesc \<times> event list" where
  "CreateFrameBuffer gl multiSamples nWidth nHeight framebufferDesc =
     (let d = framebufferDesc\<lparr>m_nRenderFramebufferId := GenFramebuffers_render gl\<rparr>;
          bound = m_nRenderFramebufferId d;
          ev1 = [glGenFramebuffers (m_nRenderFramebufferId d), glBindFramebuffer bound];
          d = d\<lparr>m_nDepthBufferId := GenRenderbuffers_depth gl\<rparr>;
          ev2 = [glGenRenderbuffers (m_nDepthBufferId d), glBindRenderbuffer (m_nDepthBufferId d),
                 (if multiSamples \<noteq> 0 then glRenderbufferStorageMultisample 4 nWidth nHeight
                  else glRenderbufferStorage nWidth nHeight),
                 glFramebufferRenderbuffer (m_nDepthBufferId d)];
          d = d\<lparr>m_nRenderTextureId := GenTextures_render gl\<rparr>;
          ev3 = glGenTextures (m_nRenderTextureId d)
                # (if multiSamples \<noteq> 0
                   then [glBindTexture_2D_MULTISAMPLE (m_nRenderTextureId d),
                         glTexImage2DMultisample 4 nWidth nHeight,
                         glFramebufferTexture2D (m_nRenderTextureId d)]
                   else [glBindTexture_2D (m_nRenderTextureId d),
                         glTexImage2D nWidth nHeight,
                         glFramebufferTexture2D (m_nRenderTextureId d)]);
          d = d\<lparr>m_nResolveFramebufferId := GenFramebuffers_resolve gl\<rparr>;
          bound = m_nResolveFramebufferId d;
          ev4 = [glGenFramebuffers (m_nResolveFramebufferId d), glBindFramebuffer bound];
          d = d\<lparr>m_nResolveTextureId := GenTextures_resolve gl\<rparr>;
          ev5 = [glGenTextures (m_nResolveTextureId d), glBindTexture_2D (m_nResolveTextureId d),
                 glTexParameteri_MIN_FILTER_LINEAR, glTexParameteri_MAX_LEVEL_0,
                 glTexImage2D nWidth nHeight,
                 glFramebufferTexture2D (m_nResolveTextureId d)];
          status = glCheckFramebufferStatus gl bound;
          ev = ev1 @ ev2 @ ev3 @ ev4 @ ev5 @ [glCheckFramebufferStatus_call bound]
      in if status \<noteq> GL_FRAMEBUFFER_COMPLETE then (False, d, ev)
         else (True, d, ev @ [glBindFramebuffer 0]))"

text \<open>
  What the window system, the runtime and the GL driver answer during one call of
  \<open>Initialize\<close>. \<open>VR_Init_eError\<close> is 0 for \<open>VRInitError_None\<close>.
\<close>

record init_env =
  SDL_Init :: int
  VR_Init_eError :: nat
  VR_GetGenericInterface :: bool
  GetRecommendedRenderTargetSize :: "32 word \<times> 32 word"
  SDL_CreateWindow :: "nat option"
  SDL_GL_CreateContext :: "nat option"
  SDL_GL_SetSwapInterval :: int
  TrackingSystemName_String :: string
  SerialNumber_String :: string
  gl_LeftEye :: gl_answers
  gl_RightEye :: gl_answers
  VRCompositor :: bool

text \<open>
  \<open>Initialize\<close>. An \<open>uint32_t\<close> passed for the \<open>int\<close> parameters of
  \<open>CreateFrameBuffer\<close> is read as two's complement (\<open>sint\<close>); \<open>RenderWidth/2\<close> is an
  unsigned division whose result fits an \<open>int\<close>. The calls that only set attributes of the
  context to be created are left out. The results of the two \<open>CreateFrameBuffer\<close> calls
  (\<open>okL\<close>, \<open>okR\<close>) are not used: the source discards them.
\<close>

definition Initialize :: "init_env \<Rightarrow> vtkOpenVRRenderWindow \<Rightarrow> vtkOpenVRRenderWindow \<times> event list" where
  "Initialize env s =
     (if SDL_Init env < 0 then (s, [SDL_Init_call, vtkErrorMacro SDL_could_not_initialize])
      else if VR_Init_eError env \<noteq> 0 then
        (s\<lparr>HMD := False\<rparr>,
         [SDL_Init_call, VR_Init_call, SDL_ShowSimpleMessageBox ''VR_Init Failed''])
      else
        (let s = s\<lparr>HMD := True\<rparr>;
             s = s\<lparr>OpenVRRenderModels := VR_GetGenericInterface env\<rparr>;
             ev = [SDL_Init_call, VR_Init_call, VR_GetGenericInterface_call]
         in if \<not> OpenVRRenderModels s then
              (s\<lparr>HMD := False\<rparr>,
               ev @ [VR_Shutdown_call, SDL_ShowSimpleMessageBox ''VR_Init Failed''])
            else
              (let s = s\<lparr>RenderWidth := fst (GetRecommendedRenderTargetSize env),
                          RenderHeight := snd (GetRecommendedRenderTargetSize env)\<rparr>;
                   s = s\<lparr>Size := (uint (RenderWidth s div 2), uint (RenderHeight s div 2))\<rparr>;
                   s = s\<lparr>WindowId := SDL_CreateWindow env\<rparr>;
                   ev = ev @ [SDL_CreateWindow_call (fst (WindowPosition s)) (snd (WindowPosition s))
                                (fst (Size s)) (snd (Size s))]
               in if WindowId s = None then (s, ev @ [vtkErrorMacro Window_could_not_be_created])
                  else
                    (let s = s\<lparr>ContextId := SDL_GL_CreateContext env\<rparr>;
                         ev = ev @ [SDL_GL_CreateContext_call]
                     in if ContextId s = None
                        then (s, ev @ [vtkErrorMacro OpenGL_context_could_not_be_created])
                        else
                          (let ev = ev @ [OpenGLInit_call, glDepthRange_call, SDL_GL_SetSwapInterval_call]
                           in if SDL_GL_SetSwapInterval env < 0
                              then (s, ev @ [vtkErrorMacro Unable_to_set_VSync])
                              else
                                (let s = s\<lparr>m_strDriver := TrackingSystemName_String env,
                                            m_strDisplay := SerialNumber_String env\<rparr>;
                                     s = s\<lparr>WindowName := ''VTK - '' @ m_strDriver s @ '' '' @ m_strDisplay s\<rparr>;
                                     ev = ev @ [SDL_SetWindowTitle (WindowName s)];
                                     (okL, dL, evL) =
                                        CreateFrameBuffer (gl_LeftEye env) (MultiSamples s)
                                          (sint (RenderWidth s)) (sint (RenderHeight s)) (LeftEyeDesc s);
                                     s = s\<lparr>LeftEyeDesc := dL\<rparr>;
                                     (okR, dR, evR) =
                                        CreateFrameBuffer (gl_RightEye env) (MultiSamples s)
                                          (sint (RenderWidth s)) (sint (RenderHeight s)) (RightEyeDesc s);
                                     s = s\<lparr>RightEyeDesc := dR\<rparr>;
                                     ev = ev @ evL @ evR @ [VRCompositor_call]
                                 in if \<not> VRCompositor env
                                    then (s, ev @ [vtkErrorMacro Compositor_initialization_failed])
                                    else (s, ev @ [DashboardOverlay_Create])))))))"

subsection \<open>The constructor\<close>

text \<open>
  The window as the constructor leaves it: initial view direction (0,0,-1) and view-up
  (0,1,0), size 640x720, position (100,100), no session, no window, no context, no device
  models. The members that the constructor does not set (the poses, the render size, the
  framebuffer names) and those of the base class are given fixed values.
\<close>

definition vtkOpenVRRenderWindow_New :: vtkOpenVRRenderWindow where
  "vtkOpenVRRenderWindow_New =
     \<lparr> HMD = False, OpenVRRenderModels = False, VTKRenderModels = [],
       TrackedDeviceToRenderModel = (\<lambda>_. None),
       TrackedDevicePose = (\<lambda>_. \<lparr> mDeviceToAbsoluteTracking = (\<lambda>_ _. 0), bPoseIsValid = False \<rparr>),
       Renderers = [], HMDTransform = Identity4x4,
       InitialViewUp = (0, 1, 0), InitialViewDirection = (0, 0, -1),
       Size = (640, 720), WindowPosition = (100, 100),
       RenderWidth = 0, RenderHeight = 0, MultiSamples = 8,
       LeftEyeDesc = \<lparr> m_nDepthBufferId = 0, m_nRenderTextureId = 0, m_nRenderFramebufferId = 0,
                       m_nResolveTextureId = 0, m_nResolveFramebufferId = 0 \<rparr>,
       RightEyeDesc = \<lparr> m_nDepthBufferId = 0, m_nRenderTextureId = 0, m_nRenderFramebufferId = 0,
                       m_nResolveTextureId = 0, m_nResolveFramebufferId = 0 \<rparr>,
       WindowId = None, ContextId = None, WindowName = ''Visualization Toolkit - OpenGL'',
       m_strDriver = [], m_strDisplay = [] \<rparr>"

section \<open>Notions used in the statements\<close>

text \<open>
  The Ready state of a model: loaded, not failed. Both raw pointers are non-null then
  (\<open>Render\<close> frees the blobs but keeps the pointers).
\<close>

definition Ready :: "vtkOpenVRModel \<Rightarrow> bool" where
  "Ready m = (\<not> FailedToLoad m \<and> Loaded m \<and> RawModel m \<noteq> None \<and> RawTexture m \<noteq> None)"

text \<open>The matrices uploaded as the shader uniform \<open>matrix\<close>, in order.\<close>

fun uploaded_matrix :: "event \<Rightarrow> real list list" where
  "uploaded_matrix (SetUniformMatrix M) = [M]"
| "uploaded_matrix _ = []"

definition uploaded :: "event list \<Rightarrow> real list list" where
  "uploaded evs = concat (map uploaded_matrix evs)"

text \<open>The device pose as a 4x4 matrix: the 3x4 pose over the row (0,0,0,1).\<close>

definition pose_4x4 :: "HmdMatrix34_t \<Rightarrow> real list" where
  "pose_4x4 m = [m 0 0, m 0 1, m 0 2, m 0 3,  m 1 0, m 1 1, m 1 2, m 1 3,
                 m 2 0, m 2 1, m 2 2, m 2 3,  0, 0, 0, 1]"

definition transpose4x4 :: "real list \<Rightarrow> real list" where
  "transpose4x4 a =
     map (\<lambda>n. a ! (4 * (n mod 4) + n div 4)) [0, 1, 2, 3, 4, 5, 6, 7, 8, 9, 10, 11, 12, 13, 14, 15]"

text \<open>The device pose "with its translation column zeroed and its homogeneous row forced
  to (0,0,0,1)", as the specification words it.\<close>

definition pose_translation_zeroed :: "HmdMatrix34_t \<Rightarrow> real list" where
  "pose_translation_zeroed m = [m 0 0, m 0 1, m 0 2, 0,  m 1 0, m 1 1, m 1 2, 0,
                                m 2 0, m 2 1, m 2 2, 0,  0, 0, 0, 1]"

text \<open>The names for which a load was requested from the runtime, in order.\<close>

fun load_request :: "event \<Rightarrow> string list" where
  "load_request (LoadRenderModel_Async_call n) = [n]"
| "load_request _ = []"

definition load_requests :: "event list \<Rightarrow> string list" where
  "load_requests evs = concat (map load_request evs)"

text \<open>The cameras of the window's renderers, in order.\<close>

definition cameras :: "vtkOpenVRRenderWindow \<Rightarrow> vtkOpenVRCamera list" where
  "cameras s = map ActiveCamera (Renderers s)"

fun negative :: "vec3 \<Rightarrow> vec3" where
  "negative (x, y, z) = (- x, - y, - z)"

text \<open>A vector "scaled by distance", as the specification words it.\<close>

fun scaled :: "real \<Rightarrow> vec3 \<Rightarrow> vec3" where
  "scaled d (x, y, z) = (d * x, d * y, d * z)"

text \<open>A head pose with identity rotation and zero translation.\<close>

definition identity_pose :: "HmdMatrix34_t \<Rightarrow> bool" where
  "identity_pose m =
     (m 0 0 = 1 \<and> m 0 1 = 0 \<and> m 0 2 = 0 \<and> m 0 3 = 0 \<and>
      m 1 0 = 0 \<and> m 1 1 = 1 \<and> m 1 2 = 0 \<and> m 1 3 = 0 \<and>
      m 2 0 = 0 \<and> m 2 1 = 0 \<and> m 2 2 = 1 \<and> m 2 3 = 0)"

text \<open>The window after \<open>WaitGetPoses\<close> has written \<open>poses\<close> into its pose array.\<close>

definition refreshed_poses :: "(nat \<Rightarrow> TrackedDevicePose_t) \<Rightarrow> vtkOpenVRRenderWindow \<Rightarrow> vtkOpenVRRenderWindow" where
  "refreshed_poses poses s =
     s\<lparr>TrackedDevicePose :=
          (\<lambda>i. if i < k_unMaxTrackedDeviceCount then poses i else TrackedDevicePose s i)\<rparr>"

text \<open>The sizes of all storage that a list of GL calls allocates (renderbuffers and
  texture images), in order.\<close>

fun storage_request :: "event \<Rightarrow> (int \<times> int) list" where
  "storage_request (glRenderbufferStorageMultisample n w h) = [(w, h)]"
| "storage_request (glRenderbufferStorage w h) = [(w, h)]"
| "storage_request (glTexImage2DMultisample n w h) = [(w, h)]"
| "storage_request (glTexImage2D w h) = [(w, h)]"
| "storage_request _ = []"

definition storage_requests :: "event list \<Rightarrow> (int \<times> int) list" where
  "storage_requests evs = concat (map storage_request evs)"

text \<open>\<open>Initialize\<close> ran to its end: it is a \<open>void\<close> function, and its last step is
  the creation of the dashboard overlay.\<close>

definition Initialize_completed :: "init_env \<Rightarrow> vtkOpenVRRenderWindow \<Rightarrow> bool" where
  "Initialize_completed env s = (DashboardOverlay_Create \<in> set (snd (Initialize env s)))"

text \<open>The two framebuffer creations that \<open>Initialize\<close> performs both report success.
  \<open>Initialize\<close> itself does not read these results.\<close>

definition framebuffers_created :: "init_env \<Rightarrow> vtkOpenVRRenderWindow \<Rightarrow> bool" where
  "framebuffers_created env s =
     (fst (CreateFrameBuffer (gl_LeftEye env) (MultiSamples s)
             (sint (fst (GetRecommendedRenderTargetSize env)))
             (sint (snd (GetRecommendedRenderTargetSize env))) (LeftEyeDesc s)) \<and>
      fst (CreateFrameBuffer (gl_RightEye env) (MultiSamples s)
             (sint (fst (GetRecommendedRenderTargetSize env)))
             (sint (snd (GetRecommendedRenderTargetSize env))) (RightEyeDesc s)))"

text \<open>A successful \<open>Initialize\<close>: it ran to its end, and both eyes' framebuffers were
  created.\<close>

definition Initialize_successful :: "init_env \<Rightarrow> vtkOpenVRRenderWindow \<Rightarrow> bool" where
  "Initialize_successful env s = (Initialize_completed env s \<and> framebuffers_created env s)"

text \<open>
  What a GL driver can answer to \<open>CreateFrameBuffer\<close> called with \<open>nWidth\<close> and
  \<open>nHeight\<close>: it refuses an image of negative width or height (\<open>GL_INVALID_VALUE\<close>),
  and a framebuffer whose image it has refused is not complete. The framebuffer whose
  status is asked for is the resolve framebuffer.
\<close>

definition GL_refuses_negative_size :: "gl_answers \<Rightarrow> int \<Rightarrow> int \<Rightarrow> bool" where
  "GL_refuses_negative_size gl nWidth nHeight =
     (glCheckFramebufferStatus gl (GenFramebuffers_resolve gl) = GL_FRAMEBUFFER_COMPLETE
        \<longrightarrow> 0 \<le> nWidth \<and> 0 \<le> nHeight)"

text \<open>The same for the two calls that \<open>Initialize\<close> makes.\<close>

definition GL_conforming :: "init_env \<Rightarrow> bool" where
  "GL_conforming env =
     (GL_refuses_negative_size (gl_LeftEye env)
        (sint (fst (GetRecommendedRenderTargetSize env)))
        (sint (snd (GetRecommendedRenderTargetSize env))) \<and>
      GL_refuses_negative_size (gl_RightEye env)
        (sint (fst (GetRecommendedRenderTargetSize env)))
        (sint (snd (GetRecommendedRenderTargetSize env))))"

text \<open>The steps whose outcome \<open>Initialize\<close> checks all succeed.\<close>

definition all_steps_succeed :: "init_env \<Rightarrow> bool" where
  "all_steps_succeed env =
     (0 \<le> SDL_Init env \<and> VR_Init_eError env = 0 \<and> VR_GetGenericInterface env \<and>
      SDL_CreateWindow env \<noteq> None \<and> SDL_GL_CreateContext env \<noteq> None \<and>
      0 \<le> SDL_GL_SetSwapInterval env \<and> VRCompositor env)"

text \<open>
  From one state of the window to a later one in the same frame: the poses are the same,
  the cache has not shrunk, a slot that holds a model still holds it, and no model's
  \<open>Show\<close> flag has changed.
\<close>

definition cache_grows :: "vtkOpenVRRenderWindow \<Rightarrow> vtkOpenVRRenderWindow \<Rightarrow> bool" where
  "cache_grows s s' =
     (TrackedDevicePose s' = TrackedDevicePose s \<and>
      length (VTKRenderModels s) \<le> length (VTKRenderModels s') \<and>
      (\<forall>d p. TrackedDeviceToRenderModel s d = Some p \<longrightarrow> TrackedDeviceToRenderModel s' d = Some p) \<and>
      (\<forall>p < length (VTKRenderModels s). Show (VTKRenderModels s' ! p) = Show (VTKRenderModels s ! p)))"

text \<open>Every pointer in a device slot is a model of the cache.\<close>

definition slots_hold_models :: "vtkOpenVRRenderWindow \<Rightarrow> bool" where
  "slots_hold_models s =
     (\<forall>d p. TrackedDeviceToRenderModel s d = Some p \<longrightarrow> p < length (VTKRenderModels s))"

section \<open>Concrete inputs\<close>

text \<open>A valid pose with identity rotation, at (1, 2, 3) in tracking space.\<close>

definition controller_pose :: TrackedDevicePose_t where
  "controller_pose =
     \<lparr> mDeviceToAbsoluteTracking = (\<lambda>j i. if i = j then 1 else if i = 3 then real (j + 1) else 0),
       bPoseIsValid = True \<rparr>"

definition controller_raw :: RenderModel_t where
  "controller_raw = \<lparr> unVertexCount = 3, unTriangleCount = 1, diffuseTextureId = 7 \<rparr>"

definition ready_model :: vtkOpenVRModel where
  "ready_model = vtkOpenVRModel_New
     \<lparr> ModelName := ''vr_controller'', RawModel := Some controller_raw,
       RawTexture := Some \<lparr> unWidth = 2, unHeight = 2 \<rparr>,
       Show := True, Loaded := True, IndexCount := 3 \<rparr>"

definition model_awaiting_geometry :: vtkOpenVRModel where
  "model_awaiting_geometry = vtkOpenVRModel_New \<lparr> ModelName := ''vr_controller'', Show := True \<rparr>"

definition model_awaiting_texture :: vtkOpenVRModel where
  "model_awaiting_texture = vtkOpenVRModel_New
     \<lparr> ModelName := ''vr_controller'', RawModel := Some controller_raw, Show := True \<rparr>"

text \<open>A runtime that answers the two loaders with the given codes and delivers nothing.\<close>

definition answers :: "EVRRenderModelError \<Rightarrow> EVRRenderModelError \<Rightarrow> render_env" where
  "answers geometry texture =
     \<lparr> LoadRenderModel_Async = (geometry, None), LoadTexture_Async = (texture, None),
       AddAttributeArray_position = True, AddAttributeArray_tcoords = True \<rparr>"

text \<open>The window after the controller's model has been requested.\<close>

definition window_with_controller :: vtkOpenVRRenderWindow where
  "window_with_controller = vtkOpenVRRenderWindow_New\<lparr>VTKRenderModels := [model_awaiting_geometry]\<rparr>"

text \<open>A camera at distance 2 with translation offset (1, 2, 3), and a window with a
  session and one renderer that has this camera.\<close>

definition camera_at_distance_2 :: vtkOpenVRCamera where
  "camera_at_distance_2 =
     \<lparr> Position = (0, 0, 2), FocalPoint = (0, 0, 0), ViewUp = (0, 1, 0), Distance = 2,
       Translation = (1, 2, 3), TrackingToDCMatrix = Identity4x4 \<rparr>"

definition window_in_session :: vtkOpenVRRenderWindow where
  "window_in_session =
     vtkOpenVRRenderWindow_New\<lparr>HMD := True, Renderers := [\<lparr> ActiveCamera = camera_at_distance_2 \<rparr>]\<rparr>"

text \<open>What the compositor delivers: a valid head pose with identity rotation at the
  origin; and an invalid head pose next to a valid pose in slot 1.\<close>

definition head_at_origin :: "nat \<Rightarrow> TrackedDevicePose_t" where
  "head_at_origin i =
     \<lparr> mDeviceToAbsoluteTracking = (\<lambda>j i. if i = j then 1 else 0), bPoseIsValid = (i = 0) \<rparr>"

definition head_lost :: "nat \<Rightarrow> TrackedDevicePose_t" where
  "head_lost i =
     \<lparr> mDeviceToAbsoluteTracking = (\<lambda>j i. if i = j then 1 else 0), bPoseIsValid = (i = 1) \<rparr>"

text \<open>GL drivers that report every framebuffer complete, or unsupported
  (\<open>GL_FRAMEBUFFER_UNSUPPORTED\<close>); names are generated from \<open>n\<close> on.\<close>

definition gl_complete :: "nat \<Rightarrow> gl_answers" where
  "gl_complete n =
     \<lparr> GenFramebuffers_render = n, GenRenderbuffers_depth = n, GenTextures_render = n,
       GenFramebuffers_resolve = n + 1, GenTextures_resolve = n + 1,
       glCheckFramebufferStatus = (\<lambda>_. GL_FRAMEBUFFER_COMPLETE) \<rparr>"

definition GL_FRAMEBUFFER_UNSUPPORTED :: nat where
  "GL_FRAMEBUFFER_UNSUPPORTED = 36061"

definition gl_incomplete :: "nat \<Rightarrow> gl_answers" where
  "gl_incomplete n = (gl_complete n)\<lparr>glCheckFramebufferStatus := (\<lambda>_. GL_FRAMEBUFFER_UNSUPPORTED)\<rparr>"

text \<open>An environment in which every step of \<open>Initialize\<close> succeeds and the runtime
  recommends the render size \<open>W\<close> x \<open>H\<close>; and one in which the left eye's
  framebuffers are not complete.\<close>

definition runtime_reporting :: "32 word \<Rightarrow> 32 word \<Rightarrow> init_env" where
  "runtime_reporting W H =
     \<lparr> SDL_Init = 0, VR_Init_eError = 0, VR_GetGenericInterface = True,
       GetRecommendedRenderTargetSize = (W, H),
       SDL_CreateWindow = Some 1, SDL_GL_CreateContext = Some 1, SDL_GL_SetSwapInterval = 0,
       TrackingSystemName_String = ''lighthouse'', SerialNumber_String = ''LHR-00000000'',
       gl_LeftEye = gl_complete 1, gl_RightEye = gl_complete 3, VRCompositor = True \<rparr>"

definition runtime_with_incomplete_framebuffer :: init_env where
  "runtime_with_incomplete_framebuffer = (runtime_reporting 1512 1680)\<lparr>gl_LeftEye := gl_incomplete 1\<rparr>"

text \<open>
  A frame in which another process has the input focus, with a controller connected in
  slot 1 and a generic tracker in slot 2, both with valid poses, their models not yet
  delivered; the windows before and after \<open>RenderModels\<close>.
\<close>

definition controller_and_tracker_captured :: frame_env where
  "controller_and_tracker_captured =
     \<lparr> IsInputFocusCapturedByAnotherProcess = True,
       IsTrackedDeviceConnected = (\<lambda>d. d = 1 \<or> d = 2),
       RenderModelName_String = (\<lambda>d. if d = 1 then ''vr_controller'' else ''vr_tracker''),
       GetTrackedDeviceClass =
         (\<lambda>d. if d = 1 then TrackedDeviceClass_Controller else TrackedDeviceClass_GenericTracker),
       LoadRenderModel_Async_start = (\<lambda>_. (VRRenderModelError_Loading, None)),
       Render_answers = (\<lambda>_. answers VRRenderModelError_Loading VRRenderModelError_Loading) \<rparr>"

definition window_tracking :: vtkOpenVRRenderWindow where
  "window_tracking = window_in_session\<lparr>TrackedDevicePose := (\<lambda>d. controller_pose)\<rparr>"

definition window_tracked :: vtkOpenVRRenderWindow where
  "window_tracked =
     window_tracking\<lparr>VTKRenderModels :=
                        [model_awaiting_geometry, model_awaiting_geometry\<lparr>ModelName := ''vr_tracker''\<rparr>],
                      TrackedDeviceToRenderModel := (\<lambda>_. None)(1 := Some 0, 2 := Some 1)\<rparr>"

section \<open>The per-device model: the pose transform\<close>

lemma length_16_explicit:
  "length (e::'a list) = 16 \<Longrightarrow>
     \<exists>a0 a1 a2 a3 a4 a5 a6 a7 a8 a9 a10 a11 a12 a13 a14 a15.
        e = [a0, a1, a2, a3, a4, a5, a6, a7, a8, a9, a10, a11, a12, a13, a14, a15]"
  by (simp add: numeral_eq_Suc length_Suc_conv) blast

text \<open>The loops and the four assignments write all 16 entries: whatever the array held
  before, it ends up as the pose's transpose, translation in the last row.\<close>

lemma pose_elems_closed:
  assumes "length e0 = 16"
  shows "pose_elems e0 m =
           [m 0 0, m 1 0, m 2 0, 0,  m 0 1, m 1 1, m 2 1, 0,
            m 0 2, m 1 2, m 2 2, 0,  m 0 3, m 1 3, m 2 3, 1]"
proof -
  from length_16_explicit [OF assms]
  obtain a0 a1 a2 a3 a4 a5 a6 a7 a8 a9 a10 a11 a12 a13 a14 a15
    where e0: "e0 = [a0, a1, a2, a3, a4, a5, a6, a7, a8, a9, a10, a11, a12, a13, a14, a15]"
    by blast
  show ?thesis
    unfolding e0 by (simp add: pose_elems_def)
qed

lemma pose_elems_transpose: "length e0 = 16 \<Longrightarrow> pose_elems e0 m = transpose4x4 (pose_4x4 m)"
  by (simp add: pose_elems_closed transpose4x4_def pose_4x4_def)

lemma Render_Ready:
  assumes "Ready m"
  shows "Render env tcdc pose m = Render_draw tcdc pose m"
proof -
  from assms obtain raw tex
    where "RawModel m = Some raw" "RawTexture m = Some tex" "\<not> FailedToLoad m"
    by (auto simp: Ready_def)
  then show ?thesis
    by (simp add: Render_def Render_geometry_def Render_texture_def split: prod.splits)
qed

lemma uploaded_Render_draw:
  "Loaded m \<Longrightarrow> uploaded (snd (Render_draw (Some t) pose m)) =
     [Multiply4x4 (pose_elems (replicate 16 0) (mDeviceToAbsoluteTracking pose)) t]"
  by (simp add: Render_draw_def uploaded_def Let_def)

text \<open>With no renderer in the window nothing is uploaded; the model is drawn all the same.\<close>

lemma Render_no_renderer:
  "Ready m \<Longrightarrow> uploaded (snd (Render env None pose m)) = []
     \<and> glDrawElements (IndexCount m) \<in> set (snd (Render env None pose m))"
  by (simp add: Render_Ready) (simp add: Ready_def Render_draw_def uploaded_def)

lemma Ready_ready_model: "Ready ready_model"
  by (simp add: Ready_def ready_model_def vtkOpenVRModel_New_def)

text \<open>
  C1, as the code has it: on a Ready model with a renderer present, \<open>Render\<close> uploads
  exactly one transform, the product of the transposed 4x4 device pose (the pose over the
  row (0,0,0,1), so the translation is kept and sits in the last row of the transpose)
  and the camera's tracking-to-device-clip matrix.
\<close>

theorem Render_uploads_transposed_pose:
  "Ready m \<Longrightarrow>
     uploaded (snd (Render env (Some t) pose m)) =
       [Multiply4x4 (transpose4x4 (pose_4x4 (mDeviceToAbsoluteTracking pose))) t]"
  by (simp add: Render_Ready uploaded_Render_draw Ready_def pose_elems_transpose)

text \<open>The same at a Ready model, the pose at (1, 2, 3) and an identity camera matrix.\<close>

theorem Render_uploads_transposed_pose_witness:
  "Ready ready_model \<and>
   uploaded (snd (Render (answers VRRenderModelError_Loading VRRenderModelError_Loading)
                    (Some Identity4x4) controller_pose ready_model)) =
     [[1, 0, 0, 0,  0, 1, 0, 0,  0, 0, 1, 0,  1, 2, 3, 1]]"
  using Render_uploads_transposed_pose [OF Ready_ready_model,
      of "answers VRRenderModelError_Loading VRRenderModelError_Loading" Identity4x4 controller_pose]
  by (simp add: Ready_ready_model Multiply4x4_def transpose4x4_def pose_4x4_def Identity4x4_def
        controller_pose_def)

text \<open>
  C1 as stated fails: for the pose at (1, 2, 3) the uploaded transform is not the product
  of the pose with zeroed translation and the camera matrix. The rotation is the identity,
  so the transposition plays no part in the difference.
\<close>

theorem Render_translation_not_zeroed:
  "uploaded (snd (Render (answers VRRenderModelError_Loading VRRenderModelError_Loading)
                    (Some Identity4x4) controller_pose ready_model))
   \<noteq> [Multiply4x4 (pose_translation_zeroed (mDeviceToAbsoluteTracking controller_pose)) Identity4x4]"
proof -
  have "Loaded ready_model"
    using Ready_ready_model by (simp add: Ready_def)
  then have "uploaded (snd (Render (answers VRRenderModelError_Loading VRRenderModelError_Loading)
                    (Some Identity4x4) controller_pose ready_model))
     = [Multiply4x4 (pose_elems (replicate 16 0) (mDeviceToAbsoluteTracking controller_pose)) Identity4x4]"
    by (simp only: Render_Ready [OF Ready_ready_model] uploaded_Render_draw)
  also have "\<dots> = [[1, 0, 0, 0,  0, 1, 0, 0,  0, 0, 1, 0,  1, 2, 3, 1]]"
    by (simp add: pose_elems_closed Multiply4x4_def Identity4x4_def controller_pose_def)
  also have "\<dots> \<noteq> [Multiply4x4 (pose_translation_zeroed (mDeviceToAbsoluteTracking controller_pose))
                      Identity4x4]"
    by (simp add: Multiply4x4_def pose_translation_zeroed_def Identity4x4_def controller_pose_def)
  finally show ?thesis .
qed

text \<open>In every call with a renderer present, whatever the state of the model, nothing but
  this product is uploaded.\<close>

lemma uploaded_append: "uploaded (xs @ ys) = uploaded xs @ uploaded ys"
  by (simp add: uploaded_def)

lemma uploaded_Build: "uploaded (snd (snd (Build env m))) = []"
  by (simp add: Build_def uploaded_def split: option.splits)

lemma uploaded_Render_geometry: "uploaded (fst (snd (Render_geometry env m))) = []"
  by (simp add: Render_geometry_def Let_def uploaded_def split: prod.splits)

lemma uploaded_Render_texture: "uploaded (snd (Render_texture env m)) = []"
proof -
  have "uploaded evs = []" if "Build env m' = (ok, m2, evs)" for m' ok m2 evs
    using uploaded_Build [of env m'] that by simp
  then show ?thesis
    by (auto simp: Render_texture_def Let_def uploaded_append split: prod.splits option.splits)
      (simp_all add: uploaded_def)
qed

lemma uploaded_Render_draw_cases:
  "uploaded (snd (Render_draw (Some t) pose m)) =
     (if Loaded m
      then [Multiply4x4 (transpose4x4 (pose_4x4 (mDeviceToAbsoluteTracking pose))) t] else [])"
  by (simp add: Render_draw_def uploaded_def Let_def pose_elems_transpose)

lemma Render_uploads_nothing_else:
  "set (uploaded (snd (Render env (Some t) pose m)))
     \<subseteq> {Multiply4x4 (transpose4x4 (pose_4x4 (mDeviceToAbsoluteTracking pose))) t}"
proof (cases "FailedToLoad m")
  case True
  then show ?thesis by (simp add: Render_def uploaded_def)
next
  case False
  obtain m1 ev1 returned where g: "Render_geometry env m = (m1, ev1, returned)"
    by (cases "Render_geometry env m")
  obtain m2 ev2 where t: "Render_texture env m1 = (m2, ev2)"
    by (cases "Render_texture env m1")
  obtain m3 ev3 where r: "Render_draw (Some t) pose m2 = (m3, ev3)"
    by (cases "Render_draw (Some t) pose m2")
  have "uploaded ev1 = []"
    using uploaded_Render_geometry [of env m] g by simp
  moreover have "uploaded ev2 = []"
    using uploaded_Render_texture [of env m1] t by simp
  moreover have "set (uploaded ev3)
     \<subseteq> {Multiply4x4 (transpose4x4 (pose_4x4 (mDeviceToAbsoluteTracking pose))) t}"
    using uploaded_Render_draw_cases [of t pose m2] r by (cases "Loaded m2") simp_all
  ultimately show ?thesis
    using False g t r by (simp add: Render_def uploaded_append)
qed


section \<open>The per-device model: loading\<close>

text \<open>Failed is absorbing: a failed model is left as it is, and nothing is called.\<close>

lemma Render_Failed_absorbing: "FailedToLoad m \<Longrightarrow> Render env tcdc pose m = (m, [])"
  by (simp add: Render_def)

text \<open>A failing texture load is logged and nothing else: the model stays where it was,
  so the next frame polls and logs again.\<close>

lemma Render_texture_error_stays:
  assumes "\<not> FailedToLoad m" "\<not> Loaded m" "RawModel m = Some raw" "RawTexture m = None"
    and "LoadTexture_Async env = (result, None)"
    and "result \<noteq> VRRenderModelError_None" "result \<noteq> VRRenderModelError_Loading"
  shows "Render env tcdc pose m =
           (m, [LoadTexture_Async_call (diffuseTextureId raw),
                vtkErrorMacro (Unable_to_load_render_texture (ModelName m))])"
  using assms
  by (cases result) (simp_all add: Render_def Render_geometry_def Render_texture_def Render_draw_def)

text \<open>The model that waits for its texture is what \<open>Render\<close> makes of the model that
  waits for its geometry, once the runtime delivers the geometry.\<close>

lemma model_awaiting_texture_reached:
  "fst (Render \<lparr> LoadRenderModel_Async = (VRRenderModelError_None, Some controller_raw),
                  LoadTexture_Async = (VRRenderModelError_Loading, None),
                  AddAttributeArray_position = True, AddAttributeArray_tcoords = True \<rparr>
          None controller_pose model_awaiting_geometry) = model_awaiting_texture"
  by (simp add: Render_def Render_geometry_def Render_texture_def Render_draw_def
        model_awaiting_geometry_def model_awaiting_texture_def vtkOpenVRModel_New_def)

text \<open>
  C3, the code at a failing input: a model that has its geometry and polls the texture
  gets \<open>VRRenderModelError_InvalidTexture\<close>. \<open>Render\<close> logs the error and leaves the
  model unchanged: it is not Failed.
\<close>

theorem Render_texture_failure_not_Failed:
  "Render (answers VRRenderModelError_None VRRenderModelError_InvalidTexture) None controller_pose
      model_awaiting_texture =
     (model_awaiting_texture,
      [LoadTexture_Async_call 7, vtkErrorMacro (Unable_to_load_render_texture ''vr_controller'')])
   \<and> \<not> FailedToLoad model_awaiting_texture"
  by (simp add: Render_def Render_geometry_def Render_texture_def Render_draw_def answers_def
        model_awaiting_texture_def vtkOpenVRModel_New_def controller_raw_def)

text \<open>
  C6: while the geometry is loading, a result that is neither success nor "still loading"
  marks the model Failed and is logged, except \<open>VRRenderModelError_NotEnoughTexCoords\<close>,
  which marks it Failed without a log; "still loading" (nothing delivered) leaves the model
  as it is, and the only call is the poll itself.
\<close>

theorem Render_geometry_phase:
  assumes "\<not> FailedToLoad m" "\<not> Loaded m" "RawModel m = None"
    and "LoadRenderModel_Async env = (result, out)"
  shows "(result \<noteq> VRRenderModelError_None \<and> result \<noteq> VRRenderModelError_Loading \<longrightarrow>
            FailedToLoad (fst (Render env tcdc pose m)) \<and>
            snd (Render env tcdc pose m) =
               LoadRenderModel_Async_call (c_str (ModelName m)) #
               (if result = VRRenderModelError_NotEnoughTexCoords then []
                else [vtkErrorMacro (Unable_to_load_render_model (ModelName m) (Some result))]))
       \<and> (result = VRRenderModelError_Loading \<and> out = None \<longrightarrow>
            Render env tcdc pose m = (m, [LoadRenderModel_Async_call (c_str (ModelName m))]))"
  using assms
  by (cases result) (simp_all add: Render_def Render_geometry_def Render_texture_def Render_draw_def)

lemma awaiting_geometry:
  "\<not> FailedToLoad model_awaiting_geometry" "\<not> Loaded model_awaiting_geometry"
  "RawModel model_awaiting_geometry = None"
  by (simp_all add: model_awaiting_geometry_def vtkOpenVRModel_New_def)

lemma c_str_vr_controller: "c_str ''vr_controller'' = ''vr_controller''"
  by (simp add: c_str_def)

text \<open>The three cases at a model that waits for its geometry: an error, the benign
  error, and "still loading".\<close>

theorem Render_geometry_phase_witness:
  "FailedToLoad (fst (Render (answers VRRenderModelError_InvalidModel VRRenderModelError_Loading)
                        None controller_pose model_awaiting_geometry))
   \<and> snd (Render (answers VRRenderModelError_InvalidModel VRRenderModelError_Loading)
                        None controller_pose model_awaiting_geometry) =
       [LoadRenderModel_Async_call ''vr_controller'',
        vtkErrorMacro (Unable_to_load_render_model ''vr_controller'' (Some VRRenderModelError_InvalidModel))]
   \<and> snd (Render (answers VRRenderModelError_NotEnoughTexCoords VRRenderModelError_Loading)
                        None controller_pose model_awaiting_geometry) =
       [LoadRenderModel_Async_call ''vr_controller'']
   \<and> Render (answers VRRenderModelError_Loading VRRenderModelError_Loading)
                        None controller_pose model_awaiting_geometry =
       (model_awaiting_geometry, [LoadRenderModel_Async_call ''vr_controller''])"
  using
    Render_geometry_phase [OF awaiting_geometry,
      of "answers VRRenderModelError_InvalidModel VRRenderModelError_Loading"
         VRRenderModelError_InvalidModel None None controller_pose]
    Render_geometry_phase [OF awaiting_geometry,
      of "answers VRRenderModelError_NotEnoughTexCoords VRRenderModelError_Loading"
         VRRenderModelError_NotEnoughTexCoords None None controller_pose]
    Render_geometry_phase [OF awaiting_geometry,
      of "answers VRRenderModelError_Loading VRRenderModelError_Loading"
         VRRenderModelError_Loading None None controller_pose]
  by (simp add: answers_def c_str_vr_controller model_awaiting_geometry_def)

section \<open>The device model cache\<close>

lemma of_char_tolower_0: "(of_char (tolower c) :: nat) = 0 \<longleftrightarrow> (of_char c :: nat) = 0"
  by (simp add: tolower_def)

lemma of_char_diff_0: "int (of_char x) - int (of_char y) = 0 \<longleftrightarrow> x = y"
  by auto

lemma c_str_Nil [simp]: "c_str [] = []"
  by (simp add: c_str_def)

lemma c_str_Cons: "c_str (a # as) = (if (of_char a :: nat) = 0 then [] else a # c_str as)"
  by (simp add: c_str_def)

lemma stricmp_0_iff: "stricmp a b = 0 \<longleftrightarrow> map tolower (c_str a) = map tolower (c_str b)"
proof (induction a b rule: stricmp.induct)
  case 1
  show ?case by simp
next
  case (2 b bs)
  show ?case by (simp add: c_str_Cons of_char_tolower_0)
next
  case (3 a as)
  show ?case by (simp add: c_str_Cons of_char_tolower_0)
next
  case (4 a as b bs)
  show ?case
  proof (cases "tolower a = tolower b")
    case False
    have "a = b" if "(of_char a :: nat) = 0" "(of_char b :: nat) = 0"
      using that by (metis of_char_eq_iff)
    with False show ?thesis by (auto simp: c_str_Cons of_char_diff_0)
  next
    case True
    then have "(of_char a :: nat) = 0 \<longleftrightarrow> (of_char b :: nat) = 0"
      by (metis of_char_tolower_0)
    with True 4 show ?thesis by (simp add: c_str_Cons)
  qed
qed

lemma c_str_idem: "c_str (c_str s) = c_str s"
  by (induction s) (simp_all add: c_str_Cons)

lemma stricmp_c_str: "stricmp (c_str n) n = 0"
  by (simp add: stricmp_0_iff c_str_idem)

lemma stricmp_trans_0: "stricmp n' n = 0 \<Longrightarrow> stricmp x n' = 0 \<longleftrightarrow> stricmp x n = 0"
  by (simp add: stricmp_0_iff)

lemma find_render_model_cong:
  "stricmp n' n = 0 \<Longrightarrow> find_render_model n' ms = find_render_model n ms"
  by (induction ms) (simp_all add: stricmp_trans_0)

lemma find_render_model_append:
  "find_render_model n (ms @ [m]) =
     (case find_render_model n ms of
        Some i \<Rightarrow> Some i
      | None \<Rightarrow> if stricmp (ModelName m) n = 0 then Some (length ms) else None)"
  by (induction ms) (auto split: option.splits)

lemma enum_value_error: "enum_value r > 100 \<longleftrightarrow> r \<noteq> VRRenderModelError_None \<and> r \<noteq> VRRenderModelError_Loading"
  by (cases r) simp_all

text \<open>
  C8: when the name is not in the cache and the runtime answers the load request with a
  result that is neither success nor "still loading", \<open>FindOrLoadRenderModel\<close> logs an
  error, deletes the model it has just created, returns \<open>NULL\<close> and leaves the window,
  the cache with it, exactly as it was.
\<close>

theorem FindOrLoadRenderModel_start_failure:
  assumes "find_render_model name (VTKRenderModels s) = None"
    and "result \<noteq> VRRenderModelError_None" "result \<noteq> VRRenderModelError_Loading"
  shows "FindOrLoadRenderModel (result, out) name s =
           (None, s,
            [LoadRenderModel_Async_call (c_str name),
             vtkErrorMacro (Unable_to_load_render_model (c_str name) None),
             ModelDelete (c_str name)])"
  using assms by (simp add: FindOrLoadRenderModel_def enum_value_error)

lemma stricmp_VR_Controller: "stricmp ''VR_Controller'' ''vr_controller'' = 0"
  by (simp add: tolower_def)

lemma find_basestation: "find_render_model ''lh_basestation'' (VTKRenderModels window_with_controller) = None"
  by (simp add: window_with_controller_def model_awaiting_geometry_def tolower_def)

lemma c_str_lh_basestation: "c_str ''lh_basestation'' = ''lh_basestation''"
  by (simp add: c_str_def)

text \<open>The same for a base station's model, with the controller's already cached.\<close>

theorem FindOrLoadRenderModel_start_failure_witness:
  "FindOrLoadRenderModel (VRRenderModelError_InvalidArg, None) ''lh_basestation'' window_with_controller =
     (None, window_with_controller,
      [LoadRenderModel_Async_call ''lh_basestation'',
       vtkErrorMacro (Unable_to_load_render_model ''lh_basestation'' None),
       ModelDelete ''lh_basestation''])"
  using FindOrLoadRenderModel_start_failure [OF find_basestation,
      of VRRenderModelError_InvalidArg None]
  by (simp add: c_str_lh_basestation)

text \<open>
  C2, as the code has it: if the first call returns a model, a second call with a name
  that is equal up to case returns the same model, asks the runtime for nothing and leaves
  the window as it is; the first call has asked the runtime once if the name was not in
  the cache before, and not at all otherwise.
\<close>

theorem FindOrLoadRenderModel_twice:
  assumes first: "FindOrLoadRenderModel reply name s = (Some p, s1, ev1)"
    and same: "stricmp name' name = 0"
  shows "FindOrLoadRenderModel reply' name' s1 = (Some p, s1, [])
       \<and> load_requests ev1 =
           (if find_render_model name (VTKRenderModels s) = None then [c_str name] else [])"
proof (cases "find_render_model name (VTKRenderModels s)")
  case (Some i)
  with first have "p = i" "s1 = s" "ev1 = []"
    by (simp_all add: FindOrLoadRenderModel_def)
  with Some same show ?thesis
    by (simp add: FindOrLoadRenderModel_def find_render_model_cong load_requests_def)
next
  case None
  obtain result out where reply: "reply = (result, out)"
    by (cases reply)
  from first None reply have ok: "\<not> enum_value result > 100"
    by (auto simp: FindOrLoadRenderModel_def split: if_splits)
  let ?m = "vtkOpenVRModel_New\<lparr>ModelName := c_str name, RawModel := out, Show := True\<rparr>"
  from first None reply ok
  have p: "p = length (VTKRenderModels s)"
    and s1: "s1 = s\<lparr>VTKRenderModels := VTKRenderModels s @ [?m]\<rparr>"
    and ev1: "ev1 = [LoadRenderModel_Async_call (c_str name)]"
    by (simp_all add: FindOrLoadRenderModel_def)
  have "find_render_model name' (VTKRenderModels s1) = find_render_model name (VTKRenderModels s1)"
    by (rule find_render_model_cong [OF same])
  also have "\<dots> = Some p"
    using None by (simp add: s1 p find_render_model_append stricmp_c_str)
  finally have "find_render_model name' (VTKRenderModels s1) = Some p" .
  then show ?thesis
    using None by (simp add: FindOrLoadRenderModel_def ev1 load_requests_def)
qed


lemma first_call_vr_controller:
  "FindOrLoadRenderModel (VRRenderModelError_Loading, None) ''vr_controller'' vtkOpenVRRenderWindow_New =
     (Some 0, window_with_controller, [LoadRenderModel_Async_call ''vr_controller''])"
  by (simp add: FindOrLoadRenderModel_def vtkOpenVRRenderWindow_New_def window_with_controller_def
        model_awaiting_geometry_def c_str_vr_controller vtkOpenVRModel_New_def)

text \<open>The same for \<open>vr_controller\<close>, then \<open>VR_Controller\<close>, on a new window.\<close>

theorem FindOrLoadRenderModel_twice_witness:
  "FindOrLoadRenderModel (VRRenderModelError_InvalidArg, None) ''VR_Controller'' window_with_controller =
     (Some 0, window_with_controller, [])
   \<and> load_requests [LoadRenderModel_Async_call ''vr_controller''] = [''vr_controller'']"
  using FindOrLoadRenderModel_twice [OF first_call_vr_controller stricmp_VR_Controller,
      of "(VRRenderModelError_InvalidArg, None)"]
  by (simp add: vtkOpenVRRenderWindow_New_def c_str_vr_controller)

text \<open>
  C2 as stated fails: when the runtime refuses to start the load, the first call
  registers nothing and returns \<open>NULL\<close>, and the second call asks the runtime again.
\<close>

theorem FindOrLoadRenderModel_twice_two_requests:
  "fst (FindOrLoadRenderModel (VRRenderModelError_InvalidArg, None) ''vr_controller''
          vtkOpenVRRenderWindow_New) = None
   \<and> load_requests
        (snd (snd (FindOrLoadRenderModel (VRRenderModelError_InvalidArg, None) ''vr_controller''
                     vtkOpenVRRenderWindow_New))
         @ snd (snd (FindOrLoadRenderModel (VRRenderModelError_InvalidArg, None) ''vr_controller''
                       (fst (snd (FindOrLoadRenderModel (VRRenderModelError_InvalidArg, None)
                                    ''vr_controller'' vtkOpenVRRenderWindow_New))))))
       = [''vr_controller'', ''vr_controller'']"
proof -
  have "find_render_model ''vr_controller'' (VTKRenderModels vtkOpenVRRenderWindow_New) = None"
    by (simp add: vtkOpenVRRenderWindow_New_def)
  then have "FindOrLoadRenderModel (VRRenderModelError_InvalidArg, None) ''vr_controller''
          vtkOpenVRRenderWindow_New =
     (None, vtkOpenVRRenderWindow_New,
      [LoadRenderModel_Async_call ''vr_controller'',
       vtkErrorMacro (Unable_to_load_render_model ''vr_controller'' None),
       ModelDelete ''vr_controller''])"
    by (simp add: FindOrLoadRenderModel_def c_str_vr_controller)
  then show ?thesis
    by (simp add: load_requests_def)
qed


section \<open>Rendering the device models\<close>

lemma cache_grows_refl: "cache_grows s s"
  by (simp add: cache_grows_def)

lemma cache_grows_trans: "cache_grows s s1 \<Longrightarrow> cache_grows s1 s2 \<Longrightarrow> cache_grows s s2"
  by (auto simp: cache_grows_def)

lemma Build_no_marker: "Model_Render_call d i \<notin> set (snd (snd (Build env m)))"
  by (simp add: Build_def split: option.splits)

lemma Build_Show: "Show (fst (snd (Build env m))) = Show m"
  by (simp add: Build_def split: option.splits)

lemma Render_geometry_no_marker: "Model_Render_call d i \<notin> set (fst (snd (Render_geometry env m)))"
  by (simp add: Render_geometry_def Let_def split: prod.splits)

lemma Render_geometry_Show: "Show (fst (Render_geometry env m)) = Show m"
  by (simp add: Render_geometry_def Let_def split: prod.splits)

lemma Render_texture_no_marker: "Model_Render_call d i \<notin> set (snd (Render_texture env m))"
proof -
  have "Model_Render_call d i \<notin> set evs" if "Build env m' = (ok, m2, evs)" for m' ok m2 evs
    using Build_no_marker [of d i env m'] that by simp
  then show ?thesis
    by (auto simp: Render_texture_def Let_def split: prod.splits option.splits)
qed

lemma Render_texture_Show: "Show (fst (Render_texture env m)) = Show m"
proof -
  have "Show m2 = Show m'" if "Build env m' = (ok, m2, evs)" for m' ok m2 evs
    using Build_Show [of env m'] that by simp
  then show ?thesis
    by (auto simp: Render_texture_def Let_def split: prod.splits option.splits)
qed

lemma Render_draw_no_marker: "Model_Render_call d i \<notin> set (snd (Render_draw tcdc pose m))"
  by (simp add: Render_draw_def Let_def split: option.splits)

lemma Render_draw_Show: "Show (fst (Render_draw tcdc pose m)) = Show m"
  by (simp add: Render_draw_def Let_def split: option.splits)

lemma Render_no_marker: "Model_Render_call d i \<notin> set (snd (Render env tcdc pose m))"
proof (cases "FailedToLoad m")
  case True
  then show ?thesis by (simp add: Render_def)
next
  case False
  obtain m1 ev1 returned where g: "Render_geometry env m = (m1, ev1, returned)"
    by (cases "Render_geometry env m")
  obtain m2 ev2 where t: "Render_texture env m1 = (m2, ev2)"
    by (cases "Render_texture env m1")
  obtain m3 ev3 where r: "Render_draw tcdc pose m2 = (m3, ev3)"
    by (cases "Render_draw tcdc pose m2")
  have "Model_Render_call d i \<notin> set ev1"
    using Render_geometry_no_marker [of d i env m] g by simp
  moreover have "Model_Render_call d i \<notin> set ev2"
    using Render_texture_no_marker [of d i env m1] t by simp
  moreover have "Model_Render_call d i \<notin> set ev3"
    using Render_draw_no_marker [of d i tcdc pose m2] r by simp
  ultimately show ?thesis
    using False g t r by (simp add: Render_def)
qed

lemma Render_Show: "Show (fst (Render env tcdc pose m)) = Show m"
proof (cases "FailedToLoad m")
  case True
  then show ?thesis by (simp add: Render_def)
next
  case False
  obtain m1 ev1 returned where g: "Render_geometry env m = (m1, ev1, returned)"
    by (cases "Render_geometry env m")
  obtain m2 ev2 where t: "Render_texture env m1 = (m2, ev2)"
    by (cases "Render_texture env m1")
  obtain m3 ev3 where r: "Render_draw tcdc pose m2 = (m3, ev3)"
    by (cases "Render_draw tcdc pose m2")
  have "Show m1 = Show m"
    using Render_geometry_Show [of env m] g by simp
  moreover have "Show m2 = Show m1"
    using Render_texture_Show [of env m1] t by simp
  moreover have "Show m3 = Show m2"
    using Render_draw_Show [of tcdc pose m2] r by simp
  ultimately show ?thesis
    using False g t r by (simp add: Render_def)
qed

lemma find_render_model_less: "find_render_model n ms = Some i \<Longrightarrow> i < length ms"
  by (induction ms arbitrary: i) (auto split: if_splits)

lemma FindOrLoadRenderModel_grows:
  assumes "FindOrLoadRenderModel reply n s = (r, s', ev)"
  shows "cache_grows s s'"
    and "Model_Render_call d i \<notin> set ev"
    and "r = Some p \<Longrightarrow> p < length (VTKRenderModels s')"
    and "TrackedDeviceToRenderModel s' = TrackedDeviceToRenderModel s"
  using assms
  by (auto simp: FindOrLoadRenderModel_def cache_grows_def Let_def nth_append
        split: option.splits prod.splits if_splits dest: find_render_model_less)

lemma RenderModels_load_grows:
  assumes "RenderModels_load env d s = (s1, ev1)"
  shows "cache_grows s s1 \<and> Model_Render_call d' i \<notin> set ev1
         \<and> (slots_hold_models s \<longrightarrow> slots_hold_models s1)"
proof (cases "TrackedDeviceToRenderModel s d")
  case (Some p)
  with assms have "s1 = s" "ev1 = []"
    by (simp_all add: RenderModels_load_def)
  then show ?thesis
    by (simp add: cache_grows_refl)
next
  case None
  obtain r s' ev where f: "FindOrLoadRenderModel (LoadRenderModel_Async_start env d)
                             (RenderModelName_String env d) s = (r, s', ev)"
    by (cases "FindOrLoadRenderModel (LoadRenderModel_Async_start env d)
                             (RenderModelName_String env d) s")
  note g = FindOrLoadRenderModel_grows [OF f]
  from assms None f have ev1: "ev1 = ev"
    and s1: "s1 = (if r \<noteq> None
                   then s'\<lparr>TrackedDeviceToRenderModel := (TrackedDeviceToRenderModel s')(d := r)\<rparr>
                   else s')"
    by (simp_all add: RenderModels_load_def split: if_splits)
  have "Model_Render_call d' i \<notin> set ev1"
    using g(2) ev1 by simp
  moreover have "cache_grows s s1"
    using g(1) g(4) None by (auto simp: s1 cache_grows_def)
  moreover have "slots_hold_models s1" if "slots_hold_models s"
    using that g(1) g(3) g(4) by (fastforce simp: s1 slots_hold_models_def cache_grows_def)
  ultimately show ?thesis
    by simp
qed

lemma RenderModels_device_props:
  assumes "RenderModels_device env capt d s = Some (s', evs)"
  shows "cache_grows s s' \<and>
         (Model_Render_call d' i \<in> set evs \<longrightarrow>
           d' = d \<and> IsTrackedDeviceConnected env d \<and>
           TrackedDeviceToRenderModel s' d = Some i \<and> i < length (VTKRenderModels s') \<and>
           Show (VTKRenderModels s' ! i) \<and> bPoseIsValid (TrackedDevicePose s d) \<and>
           \<not> (capt \<and> GetTrackedDeviceClass env d = TrackedDeviceClass_Controller))"
proof -
  obtain s1 ev1 where l: "RenderModels_load env d s = (s1, ev1)"
    by (cases "RenderModels_load env d s")
  from RenderModels_load_grows [OF l, of d' i]
  have g: "cache_grows s s1" and no: "Model_Render_call d' i \<notin> set ev1"
    by simp_all
  have pose: "TrackedDevicePose s1 = TrackedDevicePose s"
    using g by (simp add: cache_grows_def)
  let ?rendered = "IsTrackedDeviceConnected env d \<and>
     (\<exists>p. TrackedDeviceToRenderModel s1 d = Some p \<and> p < length (VTKRenderModels s1) \<and>
          Show (VTKRenderModels s1 ! p)) \<and>
     bPoseIsValid (TrackedDevicePose s1 d) \<and>
     \<not> (capt \<and> GetTrackedDeviceClass env d = TrackedDeviceClass_Controller)"
  show ?thesis
  proof (cases ?rendered)
    case False
    with assms l have "(s' = s \<or> s' = s1) \<and> (evs = [] \<or> evs = ev1)"
      by (auto simp: RenderModels_device_def Let_def split: if_splits option.splits)
    with g no cache_grows_refl [of s] show ?thesis
      by auto
  next
    case True
    then obtain p where p: "TrackedDeviceToRenderModel s1 d = Some p"
      "p < length (VTKRenderModels s1)" "Show (VTKRenderModels s1 ! p)"
      by blast
    obtain m' ev2 where r: "Render (Render_answers env d) (first_renderer_tcdc s1)
                              (TrackedDevicePose s1 d) (VTKRenderModels s1 ! p) = (m', ev2)"
      by (cases "Render (Render_answers env d) (first_renderer_tcdc s1)
                              (TrackedDevicePose s1 d) (VTKRenderModels s1 ! p)")
    from assms l True p r
    have s': "s' = s1\<lparr>VTKRenderModels := (VTKRenderModels s1)[p := m']\<rparr>"
      and evs: "evs = ev1 @ Model_Render_call d p # ev2"
      by (simp_all add: RenderModels_device_def Let_def)
    have show': "Show m' = Show (VTKRenderModels s1 ! p)"
      using Render_Show [of "Render_answers env d" "first_renderer_tcdc s1"
          "TrackedDevicePose s1 d" "VTKRenderModels s1 ! p"] r by simp
    have no2: "Model_Render_call d' i \<notin> set ev2"
      using Render_no_marker [of d' i "Render_answers env d" "first_renderer_tcdc s1"
          "TrackedDevicePose s1 d" "VTKRenderModels s1 ! p"] r by simp
    have "cache_grows s1 s'"
      using show' p(2) by (auto simp: s' cache_grows_def nth_list_update)
    with g have "cache_grows s s'"
      by (rule cache_grows_trans)
    moreover have "Model_Render_call d' i \<in> set evs \<longrightarrow>
           d' = d \<and> IsTrackedDeviceConnected env d \<and>
           TrackedDeviceToRenderModel s' d = Some i \<and> i < length (VTKRenderModels s') \<and>
           Show (VTKRenderModels s' ! i) \<and> bPoseIsValid (TrackedDevicePose s d) \<and>
           \<not> (capt \<and> GetTrackedDeviceClass env d = TrackedDeviceClass_Controller)"
      using True p show' no no2 pose by (auto simp: s' evs)
    ultimately show ?thesis
      by (rule conjI)
  qed
qed

lemma RenderModels_loop_props:
  "RenderModels_loop env capt ds s = Some (s', evs) \<Longrightarrow>
     cache_grows s s' \<and>
     (Model_Render_call d i \<in> set evs \<longrightarrow>
        d \<in> set ds \<and> IsTrackedDeviceConnected env d \<and>
        TrackedDeviceToRenderModel s' d = Some i \<and> i < length (VTKRenderModels s') \<and>
        Show (VTKRenderModels s' ! i) \<and> bPoseIsValid (TrackedDevicePose s d) \<and>
        \<not> (capt \<and> GetTrackedDeviceClass env d = TrackedDeviceClass_Controller))"
proof (induction ds arbitrary: s s' evs)
  case Nil
  then show ?case
    by (simp add: cache_grows_refl)
next
  case (Cons x xs)
  from Cons.prems obtain s1 ev1 ev2
    where b: "RenderModels_device env capt x s = Some (s1, ev1)"
      and l: "RenderModels_loop env capt xs s1 = Some (s', ev2)"
      and e: "evs = ev1 @ ev2"
    by (auto split: option.splits)
  note dp = RenderModels_device_props [OF b, of d i]
  note ih = Cons.IH [OF l]
  have g1: "cache_grows s s1"
    using dp by (rule conjunct1)
  have r1: "d = x \<and> IsTrackedDeviceConnected env x \<and>
           TrackedDeviceToRenderModel s1 x = Some i \<and> i < length (VTKRenderModels s1) \<and>
           Show (VTKRenderModels s1 ! i) \<and> bPoseIsValid (TrackedDevicePose s x) \<and>
           \<not> (capt \<and> GetTrackedDeviceClass env x = TrackedDeviceClass_Controller)"
    if "Model_Render_call d i \<in> set ev1"
    using dp that by blast
  have g2: "cache_grows s1 s'"
    using ih by (rule conjunct1)
  have r2: "d \<in> set xs \<and> IsTrackedDeviceConnected env d \<and>
        TrackedDeviceToRenderModel s' d = Some i \<and> i < length (VTKRenderModels s') \<and>
        Show (VTKRenderModels s' ! i) \<and> bPoseIsValid (TrackedDevicePose s1 d) \<and>
        \<not> (capt \<and> GetTrackedDeviceClass env d = TrackedDeviceClass_Controller)"
    if "Model_Render_call d i \<in> set ev2"
    using ih that by blast
  have "cache_grows s s'"
    using g1 g2 by (rule cache_grows_trans)
  moreover have "d \<in> set (x # xs) \<and> IsTrackedDeviceConnected env d \<and>
        TrackedDeviceToRenderModel s' d = Some i \<and> i < length (VTKRenderModels s') \<and>
        Show (VTKRenderModels s' ! i) \<and> bPoseIsValid (TrackedDevicePose s d) \<and>
        \<not> (capt \<and> GetTrackedDeviceClass env d = TrackedDeviceClass_Controller)"
    if m: "Model_Render_call d i \<in> set evs"
  proof -
    from m e consider "Model_Render_call d i \<in> set ev1" | "Model_Render_call d i \<in> set ev2"
      by auto
    then show ?thesis
    proof cases
      case 1
      from r1 [OF 1] g2 show ?thesis
        by (auto simp: cache_grows_def)
    next
      case 2
      from r2 [OF 2] g1 show ?thesis
        by (auto simp: cache_grows_def)
    qed
  qed
  ultimately show ?case
    by blast
qed

text \<open>
  C10, as the code has it: \<open>RenderModels\<close> calls a model's \<open>Render\<close> only for a
  device slot after the head-mounted display's, below the maximum device count, that is
  connected, holds a model of the cache whose \<open>Show\<close> flag is set, and has a valid pose;
  and while another process has the input focus it calls \<open>Render\<close> for no controller.
\<close>

theorem RenderModels_renders_only:
  assumes "RenderModels env s = Some (s', evs)"
  shows "(Model_Render_call d i \<in> set evs \<longrightarrow>
            k_unTrackedDeviceIndex_Hmd < d \<and> d < k_unMaxTrackedDeviceCount
          \<and> IsTrackedDeviceConnected env d
          \<and> TrackedDeviceToRenderModel s' d = Some i \<and> i < length (VTKRenderModels s')
          \<and> Show (VTKRenderModels s' ! i)
          \<and> bPoseIsValid (TrackedDevicePose s d))
       \<and> (IsInputFocusCapturedByAnotherProcess env \<and>
            GetTrackedDeviceClass env d = TrackedDeviceClass_Controller \<longrightarrow>
              Model_Render_call d i \<notin> set evs)"
proof -
  from assms have l: "RenderModels_loop env (IsInputFocusCapturedByAnotherProcess env)
             [k_unTrackedDeviceIndex_Hmd + 1 ..< k_unMaxTrackedDeviceCount] s = Some (s', evs)"
    by (simp add: RenderModels_def split: if_splits)
  from RenderModels_loop_props [OF l, of d i] show ?thesis
    by auto
qed

text \<open>Conversely, a connected slot that, after the lookup, holds a model with its
  \<open>Show\<close> flag set and has a valid pose is rendered, unless it is a controller while
  another process has the input focus.\<close>

lemma RenderModels_device_renders:
  assumes "RenderModels_load env d s = (s1, ev1)"
    and "IsTrackedDeviceConnected env d"
    and "TrackedDeviceToRenderModel s1 d = Some i" "i < length (VTKRenderModels s1)"
    and "Show (VTKRenderModels s1 ! i)" "bPoseIsValid (TrackedDevicePose s1 d)"
    and "\<not> (capt \<and> GetTrackedDeviceClass env d = TrackedDeviceClass_Controller)"
  shows "\<exists>s' ev2. RenderModels_device env capt d s = Some (s', ev1 @ Model_Render_call d i # ev2)"
  using assms by (auto simp: RenderModels_device_def Let_def split: prod.splits)

text \<open>For a controller while another process has the input focus, the visit of the slot is
  the lookup of its model and nothing more.\<close>

lemma RenderModels_device_captured_controller:
  assumes "RenderModels_device env True d s = Some (s', evs)"
    and "IsTrackedDeviceConnected env d"
    and "GetTrackedDeviceClass env d = TrackedDeviceClass_Controller"
  shows "RenderModels_load env d s = (s', evs)"
  using assms
  by (auto simp: RenderModels_device_def Let_def split: prod.splits option.splits if_splits)

text \<open>\<open>RenderModels\<close> does return when there is a session and every slot's pointer is
  a model of the cache.\<close>

lemma RenderModels_device_defined:
  assumes "slots_hold_models s"
  shows "\<exists>s' evs. RenderModels_device env capt d s = Some (s', evs) \<and> slots_hold_models s'"
proof -
  obtain s1 ev1 where l: "RenderModels_load env d s = (s1, ev1)"
    by (cases "RenderModels_load env d s")
  from RenderModels_load_grows [OF l, of d 0] assms have h: "slots_hold_models s1"
    by simp
  have "slots_hold_models (s1\<lparr>VTKRenderModels := (VTKRenderModels s1)[i := m']\<rparr>)" for i m'
    using h by (simp add: slots_hold_models_def)
  with h assms l show ?thesis
    by (auto simp: RenderModels_device_def Let_def slots_hold_models_def
          split: option.splits prod.splits)
qed

lemma RenderModels_loop_defined:
  "slots_hold_models s \<Longrightarrow> \<exists>s' evs. RenderModels_loop env capt ds s = Some (s', evs)"
proof (induction ds arbitrary: s)
  case Nil
  show ?case by simp
next
  case (Cons x xs)
  from RenderModels_device_defined [OF Cons.prems, of env capt x]
  obtain s1 ev1 where b: "RenderModels_device env capt x s = Some (s1, ev1)"
    and h: "slots_hold_models s1"
    by blast
  from Cons.IH [OF h] obtain s2 ev2 where "RenderModels_loop env capt xs s1 = Some (s2, ev2)"
    by blast
  with b show ?case
    by simp
qed

lemma RenderModels_defined:
  "HMD s \<Longrightarrow> slots_hold_models s \<Longrightarrow> \<exists>s' evs. RenderModels env s = Some (s', evs)"
  by (simp add: RenderModels_def RenderModels_loop_defined)

lemma device_slots:
  "[k_unTrackedDeviceIndex_Hmd + 1 ..< k_unMaxTrackedDeviceCount] =
     [1, 2, 3, 4, 5, 6, 7, 8, 9, 10, 11, 12, 13, 14, 15]"
  by (simp add: k_unTrackedDeviceIndex_Hmd_def k_unMaxTrackedDeviceCount_def upt_conv_Cons)

lemma c_str_vr_tracker: "c_str ''vr_tracker'' = ''vr_tracker''"
  by (simp add: c_str_def)

lemma RenderModels_controller_and_tracker_captured:
  "RenderModels controller_and_tracker_captured window_tracking =
     Some (window_tracked,
           [LoadRenderModel_Async_call ''vr_controller'',
            LoadRenderModel_Async_call ''vr_tracker'', Model_Render_call 2 1,
            LoadRenderModel_Async_call ''vr_tracker''])"
proof -
  have "HMD window_tracking"
    by (simp add: window_tracking_def window_in_session_def)
  then have "RenderModels controller_and_tracker_captured window_tracking =
      RenderModels_loop controller_and_tracker_captured True
        [1, 2, 3, 4, 5, 6, 7, 8, 9, 10, 11, 12, 13, 14, 15] window_tracking"
    by (simp only: RenderModels_def device_slots) (simp add: controller_and_tracker_captured_def)
  also have "\<dots> = Some (window_tracked,
           [LoadRenderModel_Async_call ''vr_controller'',
            LoadRenderModel_Async_call ''vr_tracker'', Model_Render_call 2 1,
            LoadRenderModel_Async_call ''vr_tracker''])"
    by (simp add: RenderModels_device_def RenderModels_load_def
        FindOrLoadRenderModel_def controller_and_tracker_captured_def window_tracking_def
        window_in_session_def window_tracked_def vtkOpenVRRenderWindow_New_def
        c_str_vr_controller c_str_vr_tracker
        model_awaiting_geometry_def vtkOpenVRModel_New_def tolower_def answers_def
        Render_def Render_geometry_def Render_texture_def Render_draw_def controller_pose_def
        first_renderer_tcdc_def Let_def)
  finally show ?thesis .
qed

lemma window_tracking_facts:
  "TrackedDeviceToRenderModel window_tracking 1 = None"
  "VTKRenderModels window_tracking = []"
  "bPoseIsValid (TrackedDevicePose window_tracking 1)"
  "bPoseIsValid (TrackedDevicePose window_tracking 2)"
  by (simp_all add: window_tracking_def window_in_session_def vtkOpenVRRenderWindow_New_def
        controller_pose_def)

lemma window_tracked_facts:
  "TrackedDeviceToRenderModel window_tracked 1 = Some 0"
  "TrackedDeviceToRenderModel window_tracked 2 = Some 1"
  "length (VTKRenderModels window_tracked) = 2"
  "ModelName (VTKRenderModels window_tracked ! 0) = ''vr_controller''"
  "Show (VTKRenderModels window_tracked ! 1)"
  by (simp_all add: window_tracked_def model_awaiting_geometry_def vtkOpenVRModel_New_def)

lemma captured_frame_facts:
  "IsInputFocusCapturedByAnotherProcess controller_and_tracker_captured"
  "IsTrackedDeviceConnected controller_and_tracker_captured 1"
  "IsTrackedDeviceConnected controller_and_tracker_captured 2"
  "GetTrackedDeviceClass controller_and_tracker_captured 1 = TrackedDeviceClass_Controller"
  "GetTrackedDeviceClass controller_and_tracker_captured 2 = TrackedDeviceClass_GenericTracker"
  by (simp_all add: controller_and_tracker_captured_def)

text \<open>
  In the frame in which the input focus is captured, \<open>Render\<close> is called for the
  tracker in slot 2, on the model at position 1, and not for the controller in slot 1.
\<close>

theorem RenderModels_renders_only_witness:
  "RenderModels controller_and_tracker_captured window_tracking =
     Some (window_tracked,
           [LoadRenderModel_Async_call ''vr_controller'',
            LoadRenderModel_Async_call ''vr_tracker'', Model_Render_call 2 1,
            LoadRenderModel_Async_call ''vr_tracker''])
   \<and> Model_Render_call 2 1 \<in>
     set [LoadRenderModel_Async_call ''vr_controller'',
          LoadRenderModel_Async_call ''vr_tracker'', Model_Render_call 2 1,
          LoadRenderModel_Async_call ''vr_tracker'']
   \<and> k_unTrackedDeviceIndex_Hmd < 2 \<and> 2 < k_unMaxTrackedDeviceCount
   \<and> IsTrackedDeviceConnected controller_and_tracker_captured 2
   \<and> TrackedDeviceToRenderModel window_tracked 2 = Some 1
   \<and> 1 < length (VTKRenderModels window_tracked)
   \<and> Show (VTKRenderModels window_tracked ! 1)
   \<and> bPoseIsValid (TrackedDevicePose window_tracking 2)
   \<and> IsInputFocusCapturedByAnotherProcess controller_and_tracker_captured
   \<and> GetTrackedDeviceClass controller_and_tracker_captured 1 = TrackedDeviceClass_Controller
   \<and> Model_Render_call 1 0 \<notin>
     set [LoadRenderModel_Async_call ''vr_controller'',
          LoadRenderModel_Async_call ''vr_tracker'', Model_Render_call 2 1,
          LoadRenderModel_Async_call ''vr_tracker'']"
proof -
  have m: "Model_Render_call 2 1 \<in>
     set [LoadRenderModel_Async_call ''vr_controller'',
          LoadRenderModel_Async_call ''vr_tracker'', Model_Render_call 2 1,
          LoadRenderModel_Async_call ''vr_tracker'']"
    by simp
  from RenderModels_renders_only [OF RenderModels_controller_and_tracker_captured, of 2 1]
    RenderModels_renders_only [OF RenderModels_controller_and_tracker_captured, of 1 0]
    m captured_frame_facts(1,4) RenderModels_controller_and_tracker_captured
  show ?thesis
    by blast
qed

text \<open>
  C10 as stated fails in its last clause: the controller in slot 1 is not skipped
  entirely while the input focus is captured. Its model is looked up before the focus is
  tested: the load of \<open>vr_controller\<close> is requested from the runtime, the model is
  entered in the cache, which was empty, and assigned to slot 1, which was null.
\<close>

theorem RenderModels_captured_controller_not_skipped:
  "IsInputFocusCapturedByAnotherProcess controller_and_tracker_captured
   \<and> GetTrackedDeviceClass controller_and_tracker_captured 1 = TrackedDeviceClass_Controller
   \<and> RenderModels controller_and_tracker_captured window_tracking =
       Some (window_tracked,
             [LoadRenderModel_Async_call ''vr_controller'',
              LoadRenderModel_Async_call ''vr_tracker'', Model_Render_call 2 1,
              LoadRenderModel_Async_call ''vr_tracker''])
   \<and> VTKRenderModels window_tracking = []
   \<and> TrackedDeviceToRenderModel window_tracking 1 = None
   \<and> ModelName (VTKRenderModels window_tracked ! 0) = ''vr_controller''
   \<and> TrackedDeviceToRenderModel window_tracked 1 = Some 0"
  by (intro conjI)
    (rule captured_frame_facts RenderModels_controller_and_tracker_captured
       window_tracking_facts window_tracked_facts)+


section \<open>The per-frame pose update\<close>

lemma UpdateHMDMatrixPose_camera_identity:
  assumes "identity_pose m"
  shows "UpdateHMDMatrixPose_camera (0, 1, 0) (0, 0, -1) m cam =
           cam\<lparr>Position := negative (Translation cam),
                FocalPoint := (case negative (Translation cam) of (x, y, z) \<Rightarrow> (x, y, z - Distance cam)),
                ViewUp := (0, 1, 0)\<rparr>"
  using assms
  by (cases "Translation cam") (simp add: UpdateHMDMatrixPose_camera_def identity_pose_def)

lemma Hmd_slot: "k_unTrackedDeviceIndex_Hmd < k_unMaxTrackedDeviceCount"
  by (simp add: k_unTrackedDeviceIndex_Hmd_def k_unMaxTrackedDeviceCount_def)

lemma UpdateHMDMatrixPose_valid:
  assumes "HMD s" "bPoseIsValid (poses k_unTrackedDeviceIndex_Hmd)"
  shows "cameras (fst (UpdateHMDMatrixPose poses s)) =
           map (UpdateHMDMatrixPose_camera (InitialViewUp s) (InitialViewDirection s)
                  (mDeviceToAbsoluteTracking (poses k_unTrackedDeviceIndex_Hmd)))
             (cameras s)"
  using assms by (simp add: UpdateHMDMatrixPose_def Let_def Hmd_slot cameras_def comp_def)

text \<open>
  C5, as the code has it: for a valid head pose with identity rotation and zero
  translation, initial view-up (0,1,0) and initial view direction (0,0,-1), the update sets
  every camera's position to the negative of its translation offset (the distance only
  multiplies the head's translation, which is zero) and its view-up to (0,1,0).
\<close>

theorem UpdateHMDMatrixPose_identity_pose:
  assumes "HMD s" "bPoseIsValid (poses k_unTrackedDeviceIndex_Hmd)"
    and "identity_pose (mDeviceToAbsoluteTracking (poses k_unTrackedDeviceIndex_Hmd))"
    and "InitialViewUp s = (0, 1, 0)" "InitialViewDirection s = (0, 0, -1)"
  shows "map Position (cameras (fst (UpdateHMDMatrixPose poses s))) =
           map (\<lambda>cam. negative (Translation cam)) (cameras s)
       \<and> map ViewUp (cameras (fst (UpdateHMDMatrixPose poses s))) =
           replicate (length (cameras s)) (0, 1, 0)"
  using assms
  by (simp add: UpdateHMDMatrixPose_valid UpdateHMDMatrixPose_camera_identity comp_def map_replicate_const)

lemma window_in_session_facts:
  "HMD window_in_session" "InitialViewUp window_in_session = (0, 1, 0)"
  "InitialViewDirection window_in_session = (0, 0, -1)"
  "cameras window_in_session = [camera_at_distance_2]"
  by (simp_all add: window_in_session_def vtkOpenVRRenderWindow_New_def cameras_def)

lemma head_at_origin_facts:
  "bPoseIsValid (head_at_origin k_unTrackedDeviceIndex_Hmd)"
  "identity_pose (mDeviceToAbsoluteTracking (head_at_origin k_unTrackedDeviceIndex_Hmd))"
  by (simp_all add: head_at_origin_def k_unTrackedDeviceIndex_Hmd_def identity_pose_def)

text \<open>The same for the camera at distance 2 with translation offset (1, 2, 3).\<close>

theorem UpdateHMDMatrixPose_identity_pose_witness:
  "map Position (cameras (fst (UpdateHMDMatrixPose head_at_origin window_in_session))) = [(-1, -2, -3)]
   \<and> map ViewUp (cameras (fst (UpdateHMDMatrixPose head_at_origin window_in_session))) = [(0, 1, 0)]"
  using UpdateHMDMatrixPose_identity_pose [where s = window_in_session and poses = head_at_origin,
      OF window_in_session_facts(1) head_at_origin_facts window_in_session_facts(2,3)]
  by (simp add: window_in_session_facts(4) camera_at_distance_2_def)

text \<open>C5 as stated fails: at distance 2 the position is not the negative of the
  translation offset scaled by the distance.\<close>

theorem UpdateHMDMatrixPose_position_not_scaled:
  "map Position (cameras (fst (UpdateHMDMatrixPose head_at_origin window_in_session)))
   \<noteq> [negative (scaled (Distance camera_at_distance_2) (Translation camera_at_distance_2))]"
proof -
  have "map Position (cameras (fst (UpdateHMDMatrixPose head_at_origin window_in_session)))
        = [negative (Translation camera_at_distance_2)]"
    by (simp add: UpdateHMDMatrixPose_valid [where s = window_in_session and poses = head_at_origin,
            OF window_in_session_facts(1) head_at_origin_facts(1)]
          window_in_session_facts UpdateHMDMatrixPose_camera_identity [OF head_at_origin_facts(2)])
  then show ?thesis
    by (simp add: camera_at_distance_2_def)
qed

text \<open>
  C7, as the code has it: with no session the update changes nothing and calls nothing;
  with a session and an invalid head pose it waits for the poses and stores them, and
  changes nothing else: the cameras are as before.
\<close>

theorem UpdateHMDMatrixPose_no_session_or_invalid:
  "(\<not> HMD s \<longrightarrow> UpdateHMDMatrixPose poses s = (s, []))
   \<and> (HMD s \<and> \<not> bPoseIsValid (poses k_unTrackedDeviceIndex_Hmd) \<longrightarrow>
        UpdateHMDMatrixPose poses s = (refreshed_poses poses s, [WaitGetPoses_call])
        \<and> Renderers (fst (UpdateHMDMatrixPose poses s)) = Renderers s)"
  by (simp add: UpdateHMDMatrixPose_def Let_def Hmd_slot refreshed_poses_def)

lemma head_lost_invalid: "\<not> bPoseIsValid (head_lost k_unTrackedDeviceIndex_Hmd)"
  by (simp add: head_lost_def k_unTrackedDeviceIndex_Hmd_def)

lemma New_no_session: "\<not> HMD vtkOpenVRRenderWindow_New"
  by (simp add: vtkOpenVRRenderWindow_New_def)

lemma cameras_refreshed_poses: "cameras (refreshed_poses poses s) = cameras s"
  by (simp add: cameras_def refreshed_poses_def)

text \<open>Both cases, with the poses in which the head is lost.\<close>

theorem UpdateHMDMatrixPose_no_session_or_invalid_witness:
  "UpdateHMDMatrixPose head_lost vtkOpenVRRenderWindow_New = (vtkOpenVRRenderWindow_New, [])
   \<and> UpdateHMDMatrixPose head_lost window_in_session =
       (refreshed_poses head_lost window_in_session, [WaitGetPoses_call])
   \<and> cameras (fst (UpdateHMDMatrixPose head_lost window_in_session)) = [camera_at_distance_2]"
  using UpdateHMDMatrixPose_no_session_or_invalid [of vtkOpenVRRenderWindow_New head_lost]
    UpdateHMDMatrixPose_no_session_or_invalid [of window_in_session head_lost]
  by (simp add: New_no_session head_lost_invalid window_in_session_facts cameras_refreshed_poses)

text \<open>C7 as stated fails: with a session and an invalid head pose the window is not as
  before, the stored pose of slot 1 has become valid.\<close>

theorem UpdateHMDMatrixPose_invalid_head_refreshes_poses:
  "HMD window_in_session \<and> \<not> bPoseIsValid (head_lost k_unTrackedDeviceIndex_Hmd)
   \<and> fst (UpdateHMDMatrixPose head_lost window_in_session) \<noteq> window_in_session"
proof -
  have "bPoseIsValid (TrackedDevicePose (fst (UpdateHMDMatrixPose head_lost window_in_session)) 1)"
    by (simp add: UpdateHMDMatrixPose_def Let_def window_in_session_def head_lost_def
          k_unTrackedDeviceIndex_Hmd_def k_unMaxTrackedDeviceCount_def)
  moreover have "\<not> bPoseIsValid (TrackedDevicePose window_in_session 1)"
    by (simp add: window_in_session_def vtkOpenVRRenderWindow_New_def)
  ultimately have "fst (UpdateHMDMatrixPose head_lost window_in_session) \<noteq> window_in_session"
    by metis
  then show ?thesis
    by (simp add: window_in_session_facts(1) head_lost_def k_unTrackedDeviceIndex_Hmd_def)
qed


section \<open>Framebuffers and initialization\<close>

lemma storage_requests_append: "storage_requests (xs @ ys) = storage_requests xs @ storage_requests ys"
  by (simp add: storage_requests_def)

lemma storage_requests_Cons: "storage_requests (x # xs) = storage_request x @ storage_requests xs"
  by (simp add: storage_requests_def)

lemma storage_requests_Nil: "storage_requests [] = []"
  by (simp add: storage_requests_def)

lemma CreateFrameBuffer_storage:
  "storage_requests (snd (snd (CreateFrameBuffer gl ms w h d))) = [(w, h), (w, h), (w, h)]"
  by (simp add: CreateFrameBuffer_def Let_def storage_requests_append storage_requests_Cons
        storage_requests_Nil)

lemma CreateFrameBuffer_no_overlay:
  "DashboardOverlay_Create \<notin> set (snd (snd (CreateFrameBuffer gl ms w h d)))"
  by (simp add: CreateFrameBuffer_def Let_def)

lemma CreateFrameBuffer_no_overlay_result:
  "CreateFrameBuffer gl ms w h d = (ok, d', evs) \<Longrightarrow> DashboardOverlay_Create \<notin> set evs"
  using CreateFrameBuffer_no_overlay [of gl ms w h d] by simp

lemma CreateFrameBuffer_reports:
  "fst (CreateFrameBuffer gl ms w h d) =
     (glCheckFramebufferStatus gl (GenFramebuffers_resolve gl) = GL_FRAMEBUFFER_COMPLETE)"
  by (simp add: CreateFrameBuffer_def Let_def)

lemma Initialize_events:
  assumes "all_steps_succeed env"
  shows "snd (Initialize env s) =
     [SDL_Init_call, VR_Init_call, VR_GetGenericInterface_call,
      SDL_CreateWindow_call (fst (WindowPosition s)) (snd (WindowPosition s))
        (uint (fst (GetRecommendedRenderTargetSize env) div 2))
        (uint (snd (GetRecommendedRenderTargetSize env) div 2)),
      SDL_GL_CreateContext_call, OpenGLInit_call, glDepthRange_call, SDL_GL_SetSwapInterval_call,
      SDL_SetWindowTitle (''VTK - '' @ TrackingSystemName_String env @ '' '' @ SerialNumber_String env)]
     @ snd (snd (CreateFrameBuffer (gl_LeftEye env) (MultiSamples s)
                   (sint (fst (GetRecommendedRenderTargetSize env)))
                   (sint (snd (GetRecommendedRenderTargetSize env))) (LeftEyeDesc s)))
     @ snd (snd (CreateFrameBuffer (gl_RightEye env) (MultiSamples s)
                   (sint (fst (GetRecommendedRenderTargetSize env)))
                   (sint (snd (GetRecommendedRenderTargetSize env))) (RightEyeDesc s)))
     @ [VRCompositor_call, DashboardOverlay_Create]"
  using assms
  by (simp add: all_steps_succeed_def Initialize_def Let_def split: prod.splits)

lemma Initialize_completed_iff: "Initialize_completed env s \<longleftrightarrow> all_steps_succeed env"
proof
  assume "all_steps_succeed env"
  then show "Initialize_completed env s"
    by (simp add: Initialize_completed_def Initialize_events)
next
  assume "Initialize_completed env s"
  then show "all_steps_succeed env"
    by (auto simp: Initialize_completed_def Initialize_def Let_def all_steps_succeed_def
          split: if_splits prod.splits dest: CreateFrameBuffer_no_overlay_result)
qed

lemma sint_small:
  assumes "unat (w :: 32 word) < 2 ^ 31"
  shows "sint w = int (unat w)"
proof -
  have p: "(2::nat) ^ 31 = 2147483648" "(2::int) ^ 31 = 2147483648"
    by simp_all
  with assms have lt: "uint w < 2 ^ 31"
    unfolding unat_eq_nat_uint by linarith
  have "0 \<le> uint w"
    by simp
  then have ge: "- (2 ^ 31) \<le> uint w"
    unfolding p by linarith
  have "signed_take_bit 31 (uint w) = uint w"
    using ge lt by (rule signed_take_bit_int_eq_self)
  then have "sint w = uint w"
    by (simp add: sint_uint)
  then show ?thesis
    by simp
qed

text \<open>For sizes that fit the \<open>int\<close> parameters, the six allocations of a completed
  \<open>Initialize\<close> (depth buffer, colour texture and resolve texture of each eye) are all of
  the recommended size.\<close>

lemma Initialize_framebuffer_sizes_in_range:
  assumes "Initialize_completed env s"
    and "GetRecommendedRenderTargetSize env = (W, H)"
    and "unat W < 2 ^ 31" "unat H < 2 ^ 31"
  shows "storage_requests (snd (Initialize env s)) =
           [(int (unat W), int (unat H)), (int (unat W), int (unat H)), (int (unat W), int (unat H)),
            (int (unat W), int (unat H)), (int (unat W), int (unat H)), (int (unat W), int (unat H))]"
proof -
  from assms(1) have ok: "all_steps_succeed env"
    by (simp add: Initialize_completed_iff)
  have "sint W = int (unat W)" "sint H = int (unat H)"
    by (rule sint_small [OF assms(3)], rule sint_small [OF assms(4)])
  then show ?thesis
    by (simp add: Initialize_events [OF ok] assms(2) storage_requests_append storage_requests_Cons
          storage_requests_Nil CreateFrameBuffer_storage)
qed



lemma sint_nonneg:
  assumes "0 \<le> sint (w :: 32 word)"
  shows "sint w = int (unat w)"
proof -
  have s: "sint w = signed_take_bit 31 (uint w)"
    by (simp add: sint_uint)
  with assms have nb: "\<not> bit (uint w) 31"
    by simp
  have "uint w < 2 ^ 32"
    using uint_bounded [of w] by simp
  then have "take_bit 32 (uint w) = uint w"
    by (simp add: take_bit_int_eq_self)
  with nb have "signed_take_bit 31 (uint w) = uint w"
    by (simp add: signed_take_bit_eq_take_bit_minus)
  with s show ?thesis
    by simp
qed

lemma sint_negative_beyond_int:
  assumes "\<not> unat (w :: 32 word) < 2 ^ 31"
  shows "sint w < 0"
proof (rule ccontr)
  assume "\<not> sint w < 0"
  then have "sint w = int (unat w)"
    by (simp add: sint_nonneg)
  moreover have "sint w < 2 ^ 31"
    using sint_lt [of w] by simp
  ultimately have "int (unat w) < 2 ^ 31"
    by simp
  then have "unat w < 2 ^ 31"
    by (metis of_nat_less_iff of_nat_numeral of_nat_power)
  with assms show False
    by simp
qed

lemma Initialize_successful_nonnegative:
  assumes "Initialize_successful env s" and "GL_conforming env"
  shows "0 \<le> sint (fst (GetRecommendedRenderTargetSize env))
       \<and> 0 \<le> sint (snd (GetRecommendedRenderTargetSize env))"
  using assms
  by (simp add: Initialize_successful_def framebuffers_created_def CreateFrameBuffer_reports
        GL_conforming_def GL_refuses_negative_size_def)


text \<open>A recommended size that does not fit the \<open>int\<close> parameters of
  \<open>CreateFrameBuffer\<close> reaches the driver as a negative number: with such a driver
  \<open>CreateFrameBuffer\<close> returns false, and \<open>Initialize\<close> is not successful.\<close>

lemma Initialize_unsuccessful_beyond_int:
  assumes "GetRecommendedRenderTargetSize env = (W, H)"
    and "GL_conforming env"
    and "\<not> unat W < 2 ^ 31 \<or> \<not> unat H < 2 ^ 31"
  shows "\<not> Initialize_successful env s"
proof
  assume "Initialize_successful env s"
  from Initialize_successful_nonnegative [OF this assms(2)] assms(1)
  have "0 \<le> sint W" "0 \<le> sint H"
    by simp_all
  moreover from assms(3) have "sint W < 0 \<or> sint H < 0"
    using sint_negative_beyond_int by blast
  ultimately show False
    by auto
qed





text \<open>
  C4, the code at a failing input: the left eye's framebuffers are not complete.
  \<open>CreateFrameBuffer\<close> returns false, but \<open>Initialize\<close> does not read the result: it
  goes on, allocates the right eye's framebuffers and creates the overlay.
\<close>

theorem Initialize_continues_after_incomplete_framebuffer:
  "\<not> fst (CreateFrameBuffer (gl_LeftEye runtime_with_incomplete_framebuffer)
            (MultiSamples vtkOpenVRRenderWindow_New) 1512 1680 (LeftEyeDesc vtkOpenVRRenderWindow_New))
   \<and> Initialize_completed runtime_with_incomplete_framebuffer vtkOpenVRRenderWindow_New
   \<and> length (storage_requests (snd (Initialize runtime_with_incomplete_framebuffer
                                       vtkOpenVRRenderWindow_New))) = 6"
proof -
  have ok: "all_steps_succeed runtime_with_incomplete_framebuffer"
    by (simp add: all_steps_succeed_def runtime_with_incomplete_framebuffer_def runtime_reporting_def)
  have "\<not> fst (CreateFrameBuffer (gl_LeftEye runtime_with_incomplete_framebuffer)
            (MultiSamples vtkOpenVRRenderWindow_New) 1512 1680 (LeftEyeDesc vtkOpenVRRenderWindow_New))"
    by (simp add: CreateFrameBuffer_reports runtime_with_incomplete_framebuffer_def gl_incomplete_def
          GL_FRAMEBUFFER_UNSUPPORTED_def GL_FRAMEBUFFER_COMPLETE_def)
  moreover have "Initialize_completed runtime_with_incomplete_framebuffer vtkOpenVRRenderWindow_New"
    by (simp add: Initialize_completed_iff ok)
  moreover have "length (storage_requests (snd (Initialize runtime_with_incomplete_framebuffer
                                       vtkOpenVRRenderWindow_New))) = 6"
    by (simp add: Initialize_events [OF ok] storage_requests_append storage_requests_Cons
          storage_requests_Nil CreateFrameBuffer_storage)
  ultimately show ?thesis by simp
qed


end
